theory Spec2Isabelle
  imports Complex_Main
begin

section \<open>Values, errors and external effects\<close>

text \<open>
  The server talks to four outside parties: the Nevermined payments library, the chain
  (through \<open>blockchainService\<close>), the MCP tool server and the completion provider.
  Every call to one of them is recorded, in order, in a log of effects, so that a
  statement such as "the purchase primitive is never invoked" is a statement about the
  log. A JavaScript exception is the \<open>Inl\<close> of a sum; \<open>undefined\<close> and \<open>null\<close>
  are \<open>None\<close> where the code only tests them for truthiness or reads through \<open>?.\<close>.
\<close>

datatype error = Error string | SyntaxError string | TypeError string

text \<open>
  A value that came out of JSON: what the tool server answers and what \<open>JSON.parse\<close>
  produces. Numbers are the integers; an object is its list of members in order.
\<close>

datatype json =
    JNull
  | JBool bool
  | JNum int
  | JStr string
  | JArr "json list"
  | JObj "(string \<times> json) list"

record ChainEvent =
  txHash :: string
  eventValue :: string
  blockNumber :: nat

datatype effect =
    GetPlan string
  | OrderPlan string
  | HasSufficientERC20Balance string string "string option"
  | GetCurrentBlockNumber
  | FindMintEvent string string string nat
  | FindBurnEvent string string string nat
  | Sleep nat
  | GetAgentAccessToken string string
  | McpConnect string string
  | McpCallTool string json
  | McpListTools
  | McpClose
  | GetPlanBalance string
  | ChatCompletion string string

text \<open>\<open>process.env\<close>: a variable is absent or holds a string.\<close>

type_synonym env = "string \<Rightarrow> string option"

text \<open>\<open>process.env.X || d\<close>: an absent or empty variable gives the default.\<close>

definition env_or :: "env \<Rightarrow> string \<Rightarrow> string \<Rightarrow> string" where
  "env_or e k d = (case e k of None \<Rightarrow> d | Some v \<Rightarrow> if v = [] then d else v)"

text \<open>\<open>!process.env.X\<close>: an absent or empty variable is falsy.\<close>

definition env_get :: "env \<Rightarrow> string \<Rightarrow> string option" where
  "env_get e k = (case e k of None \<Rightarrow> None | Some v \<Rightarrow> if v = [] then None else Some v)"

section \<open>The plan descriptor and the payments library\<close>

text \<open>
  The descriptor (DDO) that \<open>payments.plans.getPlan\<close> resolves to. The helper reads it
  through optional chaining only, so every level may be absent. Price components and
  credit amounts are non-negative integers in raw token units. \<open>reg_price\<close> and
  \<open>reg_credits\<close> are \<open>registry.price\<close> and \<open>registry.credits\<close>.
\<close>

record PlanPrice =
  tokenAddress :: "string option"
  amounts :: "nat list option"

record PlanCredits =
  amount :: "nat option"
  nftAddress :: "string option"

record PlanRegistry =
  reg_price :: "PlanPrice option"
  reg_credits :: "PlanCredits option"

record PlanDDO =
  registry :: "PlanRegistry option"
  publicKey :: "string option list option"

record OrderResult =
  success :: bool

text \<open>
  The four functions that \<open>paymentsService\<close> imports from \<open>blockchainService\<close> are
  external to the files verified here and are taken as parameters.
  \<open>hasSufficientERC20Balance\<close> answers whether the wallet's balance of the token covers
  the price it is given. \<open>findBurnEvent\<close> is a single-shot query of the Event Locator;
  it is given the log, so that its answer may change from one poll to the next.
\<close>

record Blockchain =
  hasSufficientERC20Balance :: "string \<Rightarrow> string \<Rightarrow> string option \<Rightarrow> error + bool"
  getCurrentBlockNumber :: "error + nat"
  findMintEvent :: "string \<Rightarrow> string \<Rightarrow> string \<Rightarrow> nat \<Rightarrow> error + ChainEvent option"
  findBurnEvent ::
    "effect list \<Rightarrow> string \<Rightarrow> string \<Rightarrow> string \<Rightarrow> nat \<Rightarrow> error + ChainEvent option"

text \<open>
  An authenticated instance of the payments library. \<open>plans_getPlan\<close> is given the log
  of what happened before, so the remote answer may change from one fetch to the next;
  it resolves to a descriptor, to a falsy value (\<open>None\<close>), or throws. The balance of
  a plan is an integer, which \<open>parseInt\<close> of its decimal text gives back.
\<close>

record Payments =
  isLoggedIn :: bool
  getAccountAddress :: "string option"
  plans_getPlan :: "effect list \<Rightarrow> string \<Rightarrow> error + PlanDDO option"
  plans_orderPlan :: "string \<Rightarrow> error + OrderResult"
  agents_getAgentAccessToken :: "string \<Rightarrow> string \<Rightarrow> error + string"
  plans_getPlanBalance :: "string \<Rightarrow> error + int"

definition initializePayments ::
  "(string \<Rightarrow> string \<Rightarrow> Payments) \<Rightarrow> string \<Rightarrow> string \<Rightarrow> error + Payments" where
  "initializePayments getInstance nvmApiKey environment =
     (let payments = getInstance nvmApiKey environment
      in if \<not> isLoggedIn payments
         then Inl (Error ''Failed to log in to the Nevermined Payments Library'')
         else Inr payments)"

section \<open>PlanDDOHelper\<close>

record PlanDDOHelper =
  payments :: Payments
  planId :: string
  ddo :: "PlanDDO option"

definition usdcAddress :: string where
  "usdcAddress = ''0x036CbD53842c5426634e7929541eC2318f3dCF7e''"

definition new_PlanDDOHelper :: "Payments \<Rightarrow> string \<Rightarrow> PlanDDOHelper" where
  "new_PlanDDOHelper p pid = \<lparr>payments = p, planId = pid, ddo = None\<rparr>"

text \<open>
  Every method takes the helper and the log and returns its result with the helper and
  the log as they are afterwards. \<open>loadDDO\<close> fetches only while \<open>this.ddo\<close> is falsy.
\<close>

type_synonym 'a helper_result = "(error + 'a) \<times> PlanDDOHelper \<times> effect list"

definition loadDDO :: "PlanDDOHelper \<Rightarrow> effect list \<Rightarrow> PlanDDO option helper_result" where
  "loadDDO h lg =
     (case ddo h of
        Some d \<Rightarrow> (Inr (Some d), h, lg)
      | None \<Rightarrow>
          (case plans_getPlan (payments h) lg (planId h) of
             Inl e \<Rightarrow> (Inl e, h, lg @ [GetPlan (planId h)])
           | Inr r \<Rightarrow> (Inr r, h\<lparr>ddo := r\<rparr>, lg @ [GetPlan (planId h)])))"

text \<open>\<open>const ddo = await this.loadDDO(); return f(ddo)\<close>.\<close>

definition with_ddo ::
  "(PlanDDO option \<Rightarrow> 'a) \<Rightarrow> PlanDDOHelper \<Rightarrow> effect list \<Rightarrow> 'a helper_result" where
  "with_ddo f h lg =
     (case loadDDO h lg of
        (Inl e, h', lg') \<Rightarrow> (Inl e, h', lg')
      | (Inr d, h', lg') \<Rightarrow> (Inr (f d), h', lg'))"

definition ddo_price :: "PlanDDO option \<Rightarrow> PlanPrice option" where
  "ddo_price d = Option.bind (Option.bind d registry) reg_price"

definition ddo_credits :: "PlanDDO option \<Rightarrow> PlanCredits option" where
  "ddo_credits d = Option.bind (Option.bind d registry) reg_credits"

definition tokenAddress_of :: "PlanDDO option \<Rightarrow> string option" where
  "tokenAddress_of d = Option.bind (ddo_price d) tokenAddress"

definition getTokenAddress :: "PlanDDOHelper \<Rightarrow> effect list \<Rightarrow> string option helper_result" where
  "getTokenAddress = with_ddo tokenAddress_of"

subsection \<open>Numbers and their text\<close>

text \<open>
  The price arithmetic runs on JavaScript numbers. The numbers that occur are sums of
  raw integer amounts and such a sum divided by \<open>10 ** 6\<close>; they are modelled exactly, as
  \<open>Dec n k\<close> for the decimal fraction \<open>n / 10 ^ k\<close>, next to \<open>NaN\<close>. A double agrees
  with the exact value while the sum stays below \<open>10 ^ 15\<close> (every partial sum is then
  an integer below \<open>2 ^ 53\<close>, and a quotient of at most 15 significant digits is printed
  back digit for digit); the theorems about prices carry that bound.
\<close>

datatype number = NaN | Dec nat nat

definition digit_char :: "nat \<Rightarrow> char" where
  "digit_char d = ''0123456789'' ! d"

definition digit_val :: "char \<Rightarrow> nat" where
  "digit_val c = of_char c - 48"

definition is_digit :: "char \<Rightarrow> bool" where
  "is_digit c = (c \<in> set ''0123456789'')"

function show_nat :: "nat \<Rightarrow> string" where
  "show_nat n = (if n < 10 then [digit_char n] else show_nat (n div 10) @ [digit_char (n mod 10)])"
  by pat_completeness auto
termination
  by (relation "measure id") auto

declare show_nat.simps [simp del]

definition read_nat :: "string \<Rightarrow> nat" where
  "read_nat s = foldl (\<lambda>acc c. 10 * acc + digit_val c) 0 s"

text \<open>\<open>Number.prototype.toString\<close> on the modelled numbers: no fraction point for an
  integer, no trailing zero after the point.\<close>

definition number_toString :: "number \<Rightarrow> string" where
  "number_toString x =
     (case x of
        NaN \<Rightarrow> ''NaN''
      | Dec n k \<Rightarrow>
          (let ip = n div 10 ^ k; fp = n mod 10 ^ k
           in if fp = 0 then show_nat ip
              else show_nat ip @ ''.'' @
                   rev (dropWhile (\<lambda>c. c = CHR ''0'')
                     (rev (replicate (k - length (show_nat fp)) (CHR ''0'') @ show_nat fp)))))"

text \<open>The coercion of \<open>weiPrice\<close> (a string or \<open>undefined\<close>) to a number by \<open>/\<close>.\<close>

definition toNumber :: "string option \<Rightarrow> number" where
  "toNumber w =
     (case w of
        None \<Rightarrow> NaN
      | Some s \<Rightarrow> if s \<noteq> [] \<and> list_all is_digit s then Dec (read_nat s) 0
                 else if s = [] then Dec 0 0 else NaN)"

text \<open>\<open>x / 10 ** k\<close>.\<close>

definition divide_pow10 :: "number \<Rightarrow> nat \<Rightarrow> number" where
  "divide_pow10 x j = (case x of NaN \<Rightarrow> NaN | Dec n k \<Rightarrow> Dec n (k + j))"

subsection \<open>The helper's getters\<close>

text \<open>\<open>amounts?.reduce((acc, curr) => Number(acc) + Number(curr), 0).toString()\<close>.\<close>

definition weiPrice_of :: "PlanDDO option \<Rightarrow> string option" where
  "weiPrice_of d =
     map_option (\<lambda>xs. number_toString (Dec (foldl (\<lambda>acc curr. acc + curr) 0 xs) 0))
       (Option.bind (ddo_price d) amounts)"

definition planPrice_of :: "PlanDDO option \<Rightarrow> string option" where
  "planPrice_of d =
     (let weiPrice = weiPrice_of d
      in if tokenAddress_of d = Some usdcAddress
         then Some (number_toString (divide_pow10 (toNumber weiPrice) 6))
         else weiPrice)"

definition getPlanPrice :: "PlanDDOHelper \<Rightarrow> effect list \<Rightarrow> string option helper_result" where
  "getPlanPrice = with_ddo planPrice_of"

text \<open>\<open>ddo?.registry?.credits?.amount || 0\<close>.\<close>

definition planCredits_of :: "PlanDDO option \<Rightarrow> nat" where
  "planCredits_of d = (case Option.bind (ddo_credits d) amount of None \<Rightarrow> 0 | Some n \<Rightarrow> n)"

definition getPlanCredits :: "PlanDDOHelper \<Rightarrow> effect list \<Rightarrow> nat helper_result" where
  "getPlanCredits = with_ddo planCredits_of"

text \<open>\<open>ddo?.publicKey?.[0]?.owner\<close>: the owner of the first key, when there is one.\<close>

definition agentWallet_of :: "PlanDDO option \<Rightarrow> string option" where
  "agentWallet_of d =
     (case Option.bind d publicKey of
        None \<Rightarrow> None
      | Some ks \<Rightarrow> (case ks of [] \<Rightarrow> None | k # _ \<Rightarrow> k))"

definition getAgentWallet :: "PlanDDOHelper \<Rightarrow> effect list \<Rightarrow> string option helper_result" where
  "getAgentWallet = with_ddo agentWallet_of"

text \<open>\<open>getTokenId\<close> returns the plan id and does not touch the descriptor.\<close>

definition getTokenId :: "PlanDDOHelper \<Rightarrow> effect list \<Rightarrow> string helper_result" where
  "getTokenId h lg = (Inr (planId h), h, lg)"

definition nftAddress_of :: "PlanDDO option \<Rightarrow> string option" where
  "nftAddress_of d = Option.bind (ddo_credits d) nftAddress"

definition get1155ContractAddress ::
  "PlanDDOHelper \<Rightarrow> effect list \<Rightarrow> string option helper_result" where
  "get1155ContractAddress = with_ddo nftAddress_of"

subsection \<open>Sequences of calls on one helper\<close>

text \<open>
  A caller awaits one method after the other on the same instance. \<open>invoke_all\<close> runs
  such a sequence, threading the helper and the log; a call that throws leaves the
  helper to the next call, as a caller that catches would.
\<close>

datatype helper_call =
    LoadDDO | GetTokenAddress | GetPlanPrice | GetPlanCredits
  | GetAgentWallet | GetTokenId | Get1155ContractAddress

datatype helper_value =
    DDOValue "PlanDDO option"
  | TextValue "string option"
  | CreditsValue nat
  | IdValue string

definition lift_result ::
  "('a \<Rightarrow> helper_value) \<Rightarrow> 'a helper_result \<Rightarrow> helper_value helper_result" where
  "lift_result f r =
     (case r of (Inl e, h, lg) \<Rightarrow> (Inl e, h, lg) | (Inr v, h, lg) \<Rightarrow> (Inr (f v), h, lg))"

fun invoke :: "helper_call \<Rightarrow> PlanDDOHelper \<Rightarrow> effect list \<Rightarrow> helper_value helper_result" where
  "invoke LoadDDO h lg = lift_result DDOValue (loadDDO h lg)"
| "invoke GetTokenAddress h lg = lift_result TextValue (getTokenAddress h lg)"
| "invoke GetPlanPrice h lg = lift_result TextValue (getPlanPrice h lg)"
| "invoke GetPlanCredits h lg = lift_result CreditsValue (getPlanCredits h lg)"
| "invoke GetAgentWallet h lg = lift_result TextValue (getAgentWallet h lg)"
| "invoke GetTokenId h lg = lift_result IdValue (getTokenId h lg)"
| "invoke Get1155ContractAddress h lg = lift_result TextValue (get1155ContractAddress h lg)"

fun invoke_all ::
  "helper_call list \<Rightarrow> PlanDDOHelper \<Rightarrow> effect list \<Rightarrow>
   (error + helper_value) list \<times> PlanDDOHelper \<times> effect list" where
  "invoke_all [] h lg = ([], h, lg)"
| "invoke_all (c # cs) h lg =
     (case invoke c h lg of
        (r, h', lg') \<Rightarrow>
          (case invoke_all cs h' lg' of (rs, h'', lg'') \<Rightarrow> (r # rs, h'', lg'')))"

text \<open>What each method answers from a given descriptor and plan id, with no fetch.\<close>

fun answer_from :: "string \<Rightarrow> PlanDDO option \<Rightarrow> helper_call \<Rightarrow> helper_value" where
  "answer_from pid d LoadDDO = DDOValue d"
| "answer_from pid d GetTokenAddress = TextValue (tokenAddress_of d)"
| "answer_from pid d GetPlanPrice = TextValue (planPrice_of d)"
| "answer_from pid d GetPlanCredits = CreditsValue (planCredits_of d)"
| "answer_from pid d GetAgentWallet = TextValue (agentWallet_of d)"
| "answer_from pid d GetTokenId = IdValue pid"
| "answer_from pid d Get1155ContractAddress = TextValue (nftAddress_of d)"

text \<open>A plan priced at 5 USDC that grants 100 credits, and a library instance serving it.\<close>

definition example_ddo :: PlanDDO where
  "example_ddo =
     \<lparr>registry = Some
        \<lparr>reg_price = Some \<lparr>tokenAddress = Some usdcAddress, amounts = Some [4000000, 1000000]\<rparr>,
         reg_credits = Some \<lparr>amount = Some 100, nftAddress = Some ''0xNFT''\<rparr>\<rparr>,
      publicKey = Some [Some ''0xOwner'']\<rparr>"

definition example_payments :: Payments where
  "example_payments =
     \<lparr>isLoggedIn = True,
      getAccountAddress = Some ''0xWallet'',
      plans_getPlan = (\<lambda>lg pid. Inr (Some example_ddo)),
      plans_orderPlan = (\<lambda>pid. Inr \<lparr>success = True\<rparr>),
      agents_getAgentAccessToken = (\<lambda>pid agent. Inr ''token-1''),
      plans_getPlanBalance = (\<lambda>pid. Inr 7)\<rparr>"

section \<open>paymentsService: confirmation of a burn\<close>

text \<open>The number of polls of the Event Locator recorded in a log.\<close>

fun is_poll :: "effect \<Rightarrow> bool" where
  "is_poll (FindBurnEvent c w t b) = True"
| "is_poll x = False"

definition polls :: "effect list \<Rightarrow> nat" where
  "polls lg = length (filter is_poll lg)"

text \<open>
  The loop of \<open>getBurnTransactionInfo\<close>, with its two variables \<open>burnEvent\<close> and
  \<open>attempts\<close>:
  \<^verbatim>\<open>
  while (attempts < 10 && !burnEvent) {
    burnEvent = await findBurnEvent(contractAddress, ourWallet, tokenId, fromBlock);
    if (!burnEvent) {
      attempts++;
      if (attempts < 10) await new Promise((resolve) => setTimeout(resolve, 5000));
    }
  }\<close>
\<close>

function burn_poll ::
  "Blockchain \<Rightarrow> string \<Rightarrow> string \<Rightarrow> string \<Rightarrow> nat \<Rightarrow> ChainEvent option \<Rightarrow> nat \<Rightarrow>
   effect list \<Rightarrow> (error + ChainEvent option) \<times> effect list" where
  "burn_poll bc contractAddress ourWallet tokenId fromBlock burnEvent attempts lg =
     (if attempts < 10 \<and> burnEvent = None then
        (case findBurnEvent bc lg contractAddress ourWallet tokenId fromBlock of
           Inl err \<Rightarrow> (Inl err, lg @ [FindBurnEvent contractAddress ourWallet tokenId fromBlock])
         | Inr None \<Rightarrow>
             burn_poll bc contractAddress ourWallet tokenId fromBlock None (attempts + 1)
               (lg @ [FindBurnEvent contractAddress ourWallet tokenId fromBlock]
                   @ (if attempts + 1 < 10 then [Sleep 5000] else []))
         | Inr (Some ev) \<Rightarrow>
             burn_poll bc contractAddress ourWallet tokenId fromBlock (Some ev) attempts
               (lg @ [FindBurnEvent contractAddress ourWallet tokenId fromBlock]))
      else (Inr burnEvent, lg))"
  by pat_completeness auto
termination
  by (relation "measure (\<lambda>(bc, c, w, t, b, burnEvent, attempts, lg).
        (10 - attempts) + (if burnEvent = None then 1 else 0))") auto

declare burn_poll.simps [simp del]

record BurnInfo =
  burn_txHash :: string
  burn_credits :: string
  burn_planId :: string

text \<open>
  What \<open>getBurnTransactionInfo\<close> does before the loop: configuration, the library, the
  descriptor, and the three values the Event Locator is asked about. It returns the plan
  id, the contract address, the token id and the wallet.
\<close>

definition burn_setup ::
  "env \<Rightarrow> (string \<Rightarrow> string \<Rightarrow> Payments) \<Rightarrow> string \<Rightarrow> effect list \<Rightarrow>
   (error + string \<times> string \<times> string \<times> string) \<times> effect list" where
  "burn_setup e getInstance nvmApiKey lg =
     (let environment = env_or e ''NVM_ENVIRONMENT'' ''testing'' in
      case env_get e ''PLAN_ID'' of
        None \<Rightarrow> (Inl (Error ''Missing config''), lg)
      | Some pid \<Rightarrow>
          if nvmApiKey = [] then (Inl (Error ''Missing config''), lg)
          else
            (case initializePayments getInstance nvmApiKey environment of
               Inl err \<Rightarrow> (Inl err, lg)
             | Inr p \<Rightarrow>
                 (case loadDDO (new_PlanDDOHelper p pid) lg of
                    (Inl err, h1, lg1) \<Rightarrow> (Inl err, lg1)
                  | (Inr d, h1, lg1) \<Rightarrow>
                      (case get1155ContractAddress h1 lg1 of
                         (Inl err, h2, lg2) \<Rightarrow> (Inl err, lg2)
                       | (Inr contractAddress, h2, lg2) \<Rightarrow>
                           (case getTokenId h2 lg2 of
                              (Inl err, h3, lg3) \<Rightarrow> (Inl err, lg3)
                            | (Inr tokenId, h3, lg3) \<Rightarrow>
                                (let ourWallet =
                                   (case getAccountAddress p of None \<Rightarrow> [] | Some w \<Rightarrow> w)
                                 in case contractAddress of
                                      None \<Rightarrow>
                                        (Inl (Error ''Missing contract, tokenId or wallet''), lg3)
                                    | Some c \<Rightarrow>
                                        if c = [] \<or> tokenId = [] \<or> ourWallet = []
                                        then (Inl (Error ''Missing contract, tokenId or wallet''),
                                              lg3)
                                        else (Inr (pid, c, tokenId, ourWallet), lg3)))))))"

definition getBurnTransactionInfo ::
  "env \<Rightarrow> (string \<Rightarrow> string \<Rightarrow> Payments) \<Rightarrow> Blockchain \<Rightarrow> nat \<Rightarrow> string \<Rightarrow> effect list \<Rightarrow>
   (error + BurnInfo option) \<times> effect list" where
  "getBurnTransactionInfo e getInstance bc fromBlock nvmApiKey lg =
     (case burn_setup e getInstance nvmApiKey lg of
        (Inl err, lg1) \<Rightarrow> (Inl err, lg1)
      | (Inr (pid, contractAddress, tokenId, ourWallet), lg1) \<Rightarrow>
          (case burn_poll bc contractAddress ourWallet tokenId fromBlock None 0 lg1 of
             (Inl err, lg2) \<Rightarrow> (Inl err, lg2)
           | (Inr None, lg2) \<Rightarrow> (Inr None, lg2)
           | (Inr (Some burnEvent), lg2) \<Rightarrow>
               (Inr (Some \<lparr>burn_txHash = txHash burnEvent,
                           burn_credits = eventValue burnEvent,
                           burn_planId = pid\<rparr>), lg2)))"

text \<open>\<open>k\<close> polls with a delay between each two consecutive ones, and none after the last.\<close>

fun alternating :: "nat \<Rightarrow> effect \<Rightarrow> effect \<Rightarrow> effect list" where
  "alternating 0 p s = []"
| "alternating (Suc 0) p s = [p]"
| "alternating (Suc (Suc n)) p s = p # s # alternating (Suc n) p s"

text \<open>A configured environment, and an Event Locator that finds the burn on the third poll.\<close>

definition example_env :: env where
  "example_env =
     [''PLAN_ID'' \<mapsto> ''plan-1'', ''NVM_ENVIRONMENT'' \<mapsto> ''testing'', ''AGENT_DID'' \<mapsto> ''did:agent'']"

definition example_burn :: ChainEvent where
  "example_burn = \<lparr>txHash = ''0xburn'', eventValue = ''1'', blockNumber = 120\<rparr>"

definition example_chain :: "nat \<Rightarrow> Blockchain" where
  "example_chain k =
     \<lparr>hasSufficientERC20Balance = (\<lambda>token wallet p. Inr False),
      getCurrentBlockNumber = Inr 100,
      findMintEvent = (\<lambda>c w t b. Inr None),
      findBurnEvent = (\<lambda>lg c w t b. if polls lg + 1 = k then Inr (Some example_burn) else Inr None)\<rparr>"

section \<open>paymentsService: ordering a plan\<close>

record OrderOutcome =
  order_success :: bool
  order_txHash :: "string option"
  order_credits :: "string option"
  order_message :: string

definition declined :: "string \<Rightarrow> OrderOutcome" where
  "declined msg =
     \<lparr>order_success = False, order_txHash = None, order_credits = None, order_message = msg\<rparr>"

fun error_message :: "error \<Rightarrow> string" where
  "error_message (Error m) = m"
| "error_message (SyntaxError m) = m"
| "error_message (TypeError m) = m"

fun is_order :: "effect \<Rightarrow> bool" where
  "is_order (OrderPlan pid) = True"
| "is_order x = False"

text \<open>
  Steps 4 to 6 of \<open>orderPlanCredits\<close>: the chain height, the purchase primitive
  \<open>payments.plans.orderPlan\<close> inside its \<open>try\<close>, one look for the mint event, the result.
\<close>

definition purchase ::
  "Payments \<Rightarrow> Blockchain \<Rightarrow> PlanDDOHelper \<Rightarrow> string \<Rightarrow> string \<Rightarrow> effect list \<Rightarrow>
   (error + OrderOutcome) \<times> effect list" where
  "purchase p bc h pid ourWallet lg =
     (case getCurrentBlockNumber bc of
        Inl err \<Rightarrow> (Inl err, lg @ [GetCurrentBlockNumber])
      | Inr fromBlock \<Rightarrow>
          (let lg1 = lg @ [GetCurrentBlockNumber, OrderPlan pid] in
           case plans_orderPlan p pid of
             Inl err \<Rightarrow>
               (Inr (declined (if error_message err = []
                               then ''Failed to order credits for plan''
                               else error_message err)), lg1)
           | Inr orderResult \<Rightarrow>
               if \<not> success orderResult
               then (Inr (declined ''Failed to order credits for plan''), lg1)
               else
                 (case get1155ContractAddress h lg1 of
                    (Inl err, h2, lg2) \<Rightarrow> (Inl err, lg2)
                  | (Inr contractAddress, h2, lg2) \<Rightarrow>
                      (case getTokenId h2 lg2 of
                         (Inl err, h3, lg3) \<Rightarrow> (Inl err, lg3)
                       | (Inr tokenId, h3, lg3) \<Rightarrow>
                           (case contractAddress of
                              None \<Rightarrow>
                                (Inr \<lparr>order_success = True, order_txHash = None,
                                      order_credits = None,
                                      order_message =
                                        ''Credits purchased and added to your balance.''\<rparr>, lg3)
                            | Some c \<Rightarrow>
                                if c = []
                                then (Inr \<lparr>order_success = True, order_txHash = None,
                                           order_credits = None,
                                           order_message =
                                             ''Credits purchased and added to your balance.''\<rparr>,
                                      lg3)
                                else
                                  (case findMintEvent bc c ourWallet tokenId fromBlock of
                                     Inl err \<Rightarrow>
                                       (Inl err, lg3 @ [FindMintEvent c ourWallet tokenId fromBlock])
                                   | Inr None \<Rightarrow>
                                       (Inr \<lparr>order_success = True, order_txHash = None,
                                             order_credits = None,
                                             order_message =
                                               ''Credits purchased and added to your balance.''\<rparr>,
                                        lg3 @ [FindMintEvent c ourWallet tokenId fromBlock])
                                   | Inr (Some mintEvent) \<Rightarrow>
                                       (Inr \<lparr>order_success = True,
                                             order_txHash = Some (txHash mintEvent),
                                             order_credits = Some (eventValue mintEvent),
                                             order_message =
                                               ''Credits purchased and added to your balance. (tx: ''
                                               @ txHash mintEvent @ '')''\<rparr>,
                                        lg3 @ [FindMintEvent c ourWallet tokenId fromBlock])))))))"

text \<open>
  \<open>orderPlanCredits\<close>: configuration, the descriptor, then the price and the token
  address (step 1), the wallet (step 2), the balance check (step 3), and the purchase
  only behind a positive check.
\<close>

definition orderPlanCredits ::
  "env \<Rightarrow> (string \<Rightarrow> string \<Rightarrow> Payments) \<Rightarrow> Blockchain \<Rightarrow> string \<Rightarrow> string \<Rightarrow> effect list \<Rightarrow>
   (error + OrderOutcome) \<times> effect list" where
  "orderPlanCredits e getInstance bc pid nvmApiKey lg =
     (case env_get e ''NVM_ENVIRONMENT'' of
        None \<Rightarrow> (Inl (Error ''Missing Nevermined API key or environment''), lg)
      | Some environment \<Rightarrow>
          if nvmApiKey = []
          then (Inl (Error ''Missing Nevermined API key or environment''), lg)
          else
            (case initializePayments getInstance nvmApiKey environment of
               Inl err \<Rightarrow> (Inl err, lg)
             | Inr p \<Rightarrow>
                 (case loadDDO (new_PlanDDOHelper p pid) lg of
                    (Inl err, h1, lg1) \<Rightarrow> (Inl err, lg1)
                  | (Inr d, h1, lg1) \<Rightarrow>
                      (case getPlanPrice h1 lg1 of
                         (Inl err, h2, lg2) \<Rightarrow> (Inl err, lg2)
                       | (Inr planPrice, h2, lg2) \<Rightarrow>
                           (case getTokenAddress h2 lg2 of
                              (Inl err, h3, lg3) \<Rightarrow> (Inl err, lg3)
                            | (Inr tokenAddr, h3, lg3) \<Rightarrow>
                                (case tokenAddr of
                                   None \<Rightarrow>
                                     (Inr (declined ''Token address not found in plan DDO''), lg3)
                                 | Some token \<Rightarrow>
                                     if token = []
                                     then (Inr (declined ''Token address not found in plan DDO''),
                                           lg3)
                                     else
                                       (let ourWallet =
                                          (case getAccountAddress p of
                                             None \<Rightarrow> [] | Some w \<Rightarrow> w)
                                        in if ourWallet = []
                                           then (Inr (declined ''Wallet address not found''), lg3)
                                           else
                                             (let lg4 = lg3 @
                                                [HasSufficientERC20Balance token ourWallet
                                                   planPrice]
                                              in case hasSufficientERC20Balance bc token
                                                        ourWallet planPrice of
                                                   Inl err \<Rightarrow> (Inl err, lg4)
                                                 | Inr hasBalance \<Rightarrow>
                                                     if \<not> hasBalance
                                                     then (Inr (declined
                                                       ''Insufficient USDC balance to purchase credits''),
                                                          lg4)
                                                     else purchase p bc h3 pid ourWallet
                                                            lg4))))))))"

section \<open>paymentsService: the plan's cost\<close>

record PlanCost =
  planPrice :: "string option"
  planCredits :: nat






section \<open>JavaScript values\<close>

text \<open>Truthiness of a value.\<close>

fun js_truthy :: "json \<Rightarrow> bool" where
  "js_truthy JNull = False"
| "js_truthy (JBool b) = b"
| "js_truthy (JNum n) = (n \<noteq> 0)"
| "js_truthy (JStr s) = (s \<noteq> [])"
| "js_truthy (JArr xs) = True"
| "js_truthy (JObj kvs) = True"

text \<open>
  \<open>v?.k\<close> and \<open>v.k\<close> for the member names the server reads (\<open>content\<close>, \<open>type\<close>,
  \<open>text\<close>, \<open>tool\<close>, \<open>args\<close>): the member of an object, \<open>undefined\<close> on anything else.
\<close>

fun get_prop :: "json \<Rightarrow> string \<Rightarrow> json option" where
  "get_prop (JObj kvs) k = map_of kvs k"
| "get_prop v k = None"

text \<open>
  \<open>JSON.stringify\<close> with no indentation. A string is quoted with the escapes of the
  standard: the quote, the backslash, the short escapes and \<open>\u00XX\<close> for the other
  control characters. The members of an object come in their order, which is the order
  of insertion for names that are not array indices.
\<close>

definition hex_digit :: "nat \<Rightarrow> char" where
  "hex_digit d = ''0123456789abcdef'' ! d"

definition escape_char :: "char \<Rightarrow> string" where
  "escape_char c =
     (if c = CHR 0x22 then [CHR 0x5C, CHR 0x22]
      else if c = CHR 0x5C then [CHR 0x5C, CHR 0x5C]
      else if c = CHR 0x08 then [CHR 0x5C, CHR ''b'']
      else if c = CHR 0x0C then [CHR 0x5C, CHR ''f'']
      else if c = CHR 0x0A then [CHR 0x5C, CHR ''n'']
      else if c = CHR 0x0D then [CHR 0x5C, CHR ''r'']
      else if c = CHR 0x09 then [CHR 0x5C, CHR ''t'']
      else if (of_char c :: nat) < 32
      then [CHR 0x5C, CHR ''u'', CHR ''0'', CHR ''0'',
            hex_digit (of_char c div 16), hex_digit (of_char c mod 16)]
      else [c])"

definition quote :: "string \<Rightarrow> string" where
  "quote s = [CHR 0x22] @ concat (map escape_char s) @ [CHR 0x22]"

fun join :: "string \<Rightarrow> string list \<Rightarrow> string" where
  "join sep [] = []"
| "join sep [x] = x"
| "join sep (x # y # ys) = x @ sep @ join sep (y # ys)"

definition show_int :: "int \<Rightarrow> string" where
  "show_int i = (if i < 0 then CHR ''-'' # show_nat (nat (- i)) else show_nat (nat i))"

fun JSON_stringify :: "json \<Rightarrow> string" where
  "JSON_stringify JNull = ''null''"
| "JSON_stringify (JBool b) = (if b then ''true'' else ''false'')"
| "JSON_stringify (JNum n) = show_int n"
| "JSON_stringify (JStr s) = quote s"
| "JSON_stringify (JArr xs) = ''['' @ join '','' (map JSON_stringify xs) @ '']''"
| "JSON_stringify (JObj kvs) =
     ''{'' @ join '','' (map (\<lambda>(k, v). quote k @ '':'' @ JSON_stringify v) kvs) @ ''}''"

section \<open>paymentsService: the tool gateway\<close>

text \<open>
  The MCP client of the SDK, seen from the server: opening the session, one tool call,
  the listing, closing. Each may fail with a transport error.

  Before the client exists, each of the three gateway functions builds its transport
  with \<open>new URL(mcpEndpoint)\<close>, outside the \<open>try\<close>: an endpoint that does not parse
  as a URL makes the function throw a \<open>TypeError\<close>. Whether a string parses as a URL
  is the platform's matter and is the parameter \<open>parses\<close> of the three functions.
\<close>

record McpServer =
  mcp_connect :: "string \<Rightarrow> string \<Rightarrow> error + unit"
  mcp_callTool :: "string \<Rightarrow> json \<Rightarrow> error + json"
  mcp_listTools :: "error + json"
  mcp_close :: "error + unit"

record AccessToken =
  accessToken :: string
  agentId :: string

definition getAgentAccessToken ::
  "env \<Rightarrow> (string \<Rightarrow> string \<Rightarrow> Payments) \<Rightarrow> string \<Rightarrow> effect list \<Rightarrow>
   (error + AccessToken) \<times> effect list" where
  "getAgentAccessToken e getInstance nvmApiKey lg =
     (let environment = env_or e ''NVM_ENVIRONMENT'' ''testing'' in
      case (env_get e ''PLAN_ID'', env_get e ''AGENT_DID'') of
        (Some pid, Some agentDid) \<Rightarrow>
          if nvmApiKey = []
          then (Inl (Error ''Missing config: nvmApiKey, planId, or agentDid''), lg)
          else
            (case initializePayments getInstance nvmApiKey environment of
               Inl err \<Rightarrow> (Inl err, lg)
             | Inr p \<Rightarrow>
                 (case agents_getAgentAccessToken p pid agentDid of
                    Inl err \<Rightarrow> (Inl err, lg @ [GetAgentAccessToken pid agentDid])
                  | Inr tok \<Rightarrow>
                      (Inr \<lparr>accessToken = tok, agentId = agentDid\<rparr>,
                       lg @ [GetAgentAccessToken pid agentDid])))
      | _ \<Rightarrow> (Inl (Error ''Missing config: nvmApiKey, planId, or agentDid''), lg))"

text \<open>\<open>finally { try { await client.close(); } catch {} }\<close>: the client is closed on every
  path, and a failure to close is swallowed.\<close>

definition finally_close :: "McpServer \<Rightarrow> 'a \<times> effect list \<Rightarrow> 'a \<times> effect list" where
  "finally_close mcp r =
     (case mcp_close mcp of
        Inl err \<Rightarrow> (fst r, snd r @ [McpClose])
      | Inr u \<Rightarrow> (fst r, snd r @ [McpClose]))"

text \<open>
  The extraction of the output text, the same in \<open>createTask\<close> and \<open>callMcpTool\<close>:
  \<^verbatim>\<open>
  let outputText = "";
  if (Array.isArray(result?.content)) {
    const textItem = result.content.find(
      (c: any) => c && typeof c === "object" && c.type === "text");
    if (textItem && typeof textItem.text !== "undefined") {
      outputText = typeof textItem.text === "string"
        ? textItem.text : JSON.stringify(textItem.text);
    }
  }
  if (!outputText) {
    outputText = typeof result === "string" ? result : JSON.stringify(result);
  }\<close>
\<close>

definition is_text_item :: "json \<Rightarrow> bool" where
  "is_text_item c = (js_truthy c \<and> get_prop c ''type'' = Some (JStr ''text''))"

definition extract_text :: "json \<Rightarrow> string" where
  "extract_text result =
     (case get_prop result ''content'' of
        Some (JArr content) \<Rightarrow>
          (case find is_text_item content of
             None \<Rightarrow> []
           | Some textItem \<Rightarrow>
               (case get_prop textItem ''text'' of
                  None \<Rightarrow> []
                | Some (JStr s) \<Rightarrow> s
                | Some v \<Rightarrow> JSON_stringify v))
      | _ \<Rightarrow> [])"

definition outputText_of :: "json \<Rightarrow> string" where
  "outputText_of result =
     (let outputText = extract_text result
      in if outputText = []
         then (case result of JStr s \<Rightarrow> s | _ \<Rightarrow> JSON_stringify result)
         else outputText)"

text \<open>The input of \<open>createTask\<close>: \<open>string | { tool: string; args: Record<string, any> }\<close>.\<close>

datatype task_input = TextInput string | ToolInput string "json option"

text \<open>"Decide tool and args" in \<open>createTask\<close>.\<close>

definition decide_tool :: "env \<Rightarrow> task_input \<Rightarrow> string \<times> json" where
  "decide_tool e input =
     (case input of
        ToolInput tool args \<Rightarrow>
          (tool, (case args of None \<Rightarrow> JObj [] | Some a \<Rightarrow> if js_truthy a then a else JObj []))
      | TextInput s \<Rightarrow>
          (let toolName =
             (case env_get e ''MCP_TOOL'' of
                Some t \<Rightarrow> t
              | None \<Rightarrow>
                  (case env_get e ''RAW'' of
                     Some r \<Rightarrow> ''weather.today.raw''
                   | None \<Rightarrow> ''weather.today''));
               inputQuery = s
           in (toolName, if inputQuery \<noteq> [] then JObj [(''city'', JStr inputQuery)] else JObj [])))"

record TaskOutput =
  task_output :: string

definition createTask ::
  "(string \<Rightarrow> bool) \<Rightarrow> env \<Rightarrow> (string \<Rightarrow> string \<Rightarrow> Payments) \<Rightarrow> McpServer \<Rightarrow>
   task_input \<Rightarrow> string \<Rightarrow> effect list \<Rightarrow> (error + TaskOutput) \<times> effect list" where
  "createTask parses e getInstance mcp input nvmApiKey lg =
     (let mcpEndpoint = env_or e ''MCP_ENDPOINT'' ''http://localhost:3001/mcp'' in
      case getAgentAccessToken e getInstance nvmApiKey lg of
        (Inl err, lg1) \<Rightarrow> (Inl err, lg1)
      | (Inr tok, lg1) \<Rightarrow>
          if \<not> parses mcpEndpoint then (Inl (TypeError ''Invalid URL''), lg1)
          else
            finally_close mcp
              (let lg2 = lg1 @ [McpConnect mcpEndpoint (accessToken tok)] in
               case mcp_connect mcp mcpEndpoint (accessToken tok) of
                 Inl err \<Rightarrow> (Inr \<lparr>task_output = ''Error creating task''\<rparr>, lg2)
               | Inr u \<Rightarrow>
                   (case decide_tool e input of
                      (toolName, toolArgs) \<Rightarrow>
                        (case mcp_callTool mcp toolName toolArgs of
                           Inl err \<Rightarrow>
                             (Inr \<lparr>task_output = ''Error creating task''\<rparr>,
                              lg2 @ [McpCallTool toolName toolArgs])
                         | Inr result \<Rightarrow>
                             (Inr \<lparr>task_output = outputText_of result\<rparr>,
                              lg2 @ [McpCallTool toolName toolArgs])))))"

definition listMcpTools ::
  "(string \<Rightarrow> bool) \<Rightarrow> env \<Rightarrow> (string \<Rightarrow> string \<Rightarrow> Payments) \<Rightarrow> McpServer \<Rightarrow> string \<Rightarrow>
   effect list \<Rightarrow> (error + json) \<times> effect list" where
  "listMcpTools parses e getInstance mcp nvmApiKey lg =
     (let mcpEndpoint = env_or e ''MCP_ENDPOINT'' ''http://localhost:3001/mcp'' in
      case getAgentAccessToken e getInstance nvmApiKey lg of
        (Inl err, lg1) \<Rightarrow> (Inl err, lg1)
      | (Inr tok, lg1) \<Rightarrow>
          if \<not> parses mcpEndpoint then (Inl (TypeError ''Invalid URL''), lg1)
          else
            finally_close mcp
              (let lg2 = lg1 @ [McpConnect mcpEndpoint (accessToken tok)] in
               case mcp_connect mcp mcpEndpoint (accessToken tok) of
                 Inl err \<Rightarrow> (Inr (JArr []), lg2)
               | Inr u \<Rightarrow>
                   (case mcp_listTools mcp of
                      Inl err \<Rightarrow> (Inr (JArr []), lg2 @ [McpListTools])
                    | Inr tools \<Rightarrow> (Inr tools, lg2 @ [McpListTools]))))"

record ToolResult =
  tool_output :: string
  tool_content :: "json option"

definition callMcpTool ::
  "(string \<Rightarrow> bool) \<Rightarrow> env \<Rightarrow> (string \<Rightarrow> string \<Rightarrow> Payments) \<Rightarrow> McpServer \<Rightarrow> string \<Rightarrow>
   json \<Rightarrow> string \<Rightarrow> effect list \<Rightarrow> (error + ToolResult) \<times> effect list" where
  "callMcpTool parses e getInstance mcp toolName args nvmApiKey lg =
     (let mcpEndpoint = env_or e ''MCP_ENDPOINT'' ''http://localhost:3001/mcp'' in
      case getAgentAccessToken e getInstance nvmApiKey lg of
        (Inl err, lg1) \<Rightarrow> (Inl err, lg1)
      | (Inr tok, lg1) \<Rightarrow>
          if \<not> parses mcpEndpoint then (Inl (TypeError ''Invalid URL''), lg1)
          else
            finally_close mcp
              (let lg2 = lg1 @ [McpConnect mcpEndpoint (accessToken tok)] in
               case mcp_connect mcp mcpEndpoint (accessToken tok) of
                 Inl err \<Rightarrow> (Inl err, lg2)
               | Inr u \<Rightarrow>
                   (case mcp_callTool mcp toolName args of
                      Inl err \<Rightarrow> (Inl err, lg2 @ [McpCallTool toolName args])
                    | Inr result \<Rightarrow>
                        (Inr \<lparr>tool_output = outputText_of result,
                              tool_content = get_prop result ''content''\<rparr>,
                         lg2 @ [McpCallTool toolName args]))))"

text \<open>Tool servers for the examples: one that cannot be reached, one that answers.\<close>

definition unreachable_server :: McpServer where
  "unreachable_server =
     \<lparr>mcp_connect = (\<lambda>endpoint tok. Inl (Error ''fetch failed'')),
      mcp_callTool = (\<lambda>name args. Inl (Error ''Not connected'')),
      mcp_listTools = Inl (Error ''Not connected''),
      mcp_close = Inr ()\<rparr>"

definition answering_server :: "json \<Rightarrow> McpServer" where
  "answering_server result =
     \<lparr>mcp_connect = (\<lambda>endpoint tok. Inr ()),
      mcp_callTool = (\<lambda>name args. Inr result),
      mcp_listTools = Inr (JObj [(''tools'', JArr [])]),
      mcp_close = Inr ()\<rparr>"

text \<open>
  For the examples, a test that accepts \<open>http://localhost:3001/mcp\<close>, as \<open>new URL\<close>
  does, and refuses a text without a scheme, such as \<open>not a url\<close>, as \<open>new URL\<close> does.
\<close>

definition http_url :: "string \<Rightarrow> bool" where
  "http_url s = (take 7 s = ''http://'' \<and> 7 < length s)"

definition text_result :: "string \<Rightarrow> json" where
  "text_result s = JObj [(''content'', JArr [JObj [(''type'', JStr ''text''), (''text'', JStr s)]])]"

section \<open>A JSON parser\<close>

text \<open>
  \<open>JSON.parse\<close> belongs to the platform, not to the server, so the functions that call
  it take the parser as a parameter and the theorems hold for every parser. The parser
  below serves to run them: a recursive-descent parser for the JSON whose numbers are
  integers and whose strings use the short escapes. The nesting of a text is below its
  length, which bounds the recursion. A repeated key keeps its first place and takes the
  last value.
\<close>

definition is_json_space :: "char \<Rightarrow> bool" where
  "is_json_space c = (c = CHR 0x20 \<or> c = CHR 0x09 \<or> c = CHR 0x0A \<or> c = CHR 0x0D)"

definition skip_space :: "string \<Rightarrow> string" where
  "skip_space s = dropWhile is_json_space s"

definition unescape :: "char \<Rightarrow> char option" where
  "unescape c =
     (if c = CHR 0x22 then Some (CHR 0x22)
      else if c = CHR 0x5C then Some (CHR 0x5C)
      else if c = CHR ''/'' then Some (CHR ''/'')
      else if c = CHR ''b'' then Some (CHR 0x08)
      else if c = CHR ''f'' then Some (CHR 0x0C)
      else if c = CHR ''n'' then Some (CHR 0x0A)
      else if c = CHR ''r'' then Some (CHR 0x0D)
      else if c = CHR ''t'' then Some (CHR 0x09)
      else None)"

text \<open>The rest of a string literal after its opening quote.\<close>

fun parse_string :: "string \<Rightarrow> string \<Rightarrow> (string \<times> string) option" where
  "parse_string [] acc = None"
| "parse_string [c] acc = (if c = CHR 0x22 then Some (acc, []) else None)"
| "parse_string (c # d # r) acc =
     (if c = CHR 0x22 then Some (acc, d # r)
      else if c = CHR 0x5C
      then (case unescape d of None \<Rightarrow> None | Some ch \<Rightarrow> parse_string r (acc @ [ch]))
      else if (of_char c :: nat) < 32 then None
      else parse_string (d # r) (acc @ [c]))"

text \<open>An integer literal: an optional minus, then \<open>0\<close> or digits without a leading zero.\<close>

definition parse_number :: "string \<Rightarrow> (json \<times> string) option" where
  "parse_number s =
     (let neg = (s \<noteq> [] \<and> hd s = CHR ''-'');
          body = (if neg then tl s else s);
          ds = takeWhile is_digit body;
          rest = dropWhile is_digit body
      in if ds = [] \<or> (length ds > 1 \<and> hd ds = CHR ''0'') then None
         else if rest \<noteq> [] \<and> hd rest \<in> set ''.eE'' then None
         else Some (JNum (if neg then - int (read_nat ds) else int (read_nat ds)), rest))"

fun put_member :: "string \<Rightarrow> json \<Rightarrow> (string \<times> json) list \<Rightarrow> (string \<times> json) list" where
  "put_member k v [] = [(k, v)]"
| "put_member k v (p # ps) = (if fst p = k then (k, v) # ps else p # put_member k v ps)"

fun parse_value :: "nat \<Rightarrow> string \<Rightarrow> (json \<times> string) option"
  and parse_elements :: "nat \<Rightarrow> string \<Rightarrow> json list \<Rightarrow> (json \<times> string) option"
  and parse_members :: "nat \<Rightarrow> string \<Rightarrow> (string \<times> json) list \<Rightarrow> (json \<times> string) option"
where
  "parse_value 0 s = None"
| "parse_value (Suc n) s =
     (case skip_space s of
        [] \<Rightarrow> None
      | c # r \<Rightarrow>
          if c = CHR ''{''
          then (case skip_space r of
                  [] \<Rightarrow> None
                | d # r' \<Rightarrow> if d = CHR ''}'' then Some (JObj [], r') else parse_members n r [])
          else if c = CHR ''[''
          then (case skip_space r of
                  [] \<Rightarrow> None
                | d # r' \<Rightarrow> if d = CHR '']'' then Some (JArr [], r') else parse_elements n r [])
          else if c = CHR 0x22
          then (case parse_string r [] of None \<Rightarrow> None | Some (str, r') \<Rightarrow> Some (JStr str, r'))
          else if c = CHR ''-'' \<or> is_digit c then parse_number (c # r)
          else if take 4 (c # r) = ''true'' then Some (JBool True, drop 4 (c # r))
          else if take 5 (c # r) = ''false'' then Some (JBool False, drop 5 (c # r))
          else if take 4 (c # r) = ''null'' then Some (JNull, drop 4 (c # r))
          else None)"
| "parse_elements 0 s acc = None"
| "parse_elements (Suc n) s acc =
     (case parse_value n s of
        None \<Rightarrow> None
      | Some (v, r) \<Rightarrow>
          (case skip_space r of
             [] \<Rightarrow> None
           | c # r' \<Rightarrow>
               if c = CHR '','' then parse_elements n r' (acc @ [v])
               else if c = CHR '']'' then Some (JArr (acc @ [v]), r')
               else None))"
| "parse_members 0 s acc = None"
| "parse_members (Suc n) s acc =
     (case skip_space s of
        [] \<Rightarrow> None
      | q # r \<Rightarrow>
          if q \<noteq> CHR 0x22 then None
          else
            (case parse_string r [] of
               None \<Rightarrow> None
             | Some (k, r1) \<Rightarrow>
                 (case skip_space r1 of
                    [] \<Rightarrow> None
                  | colon # r2 \<Rightarrow>
                      if colon \<noteq> CHR '':'' then None
                      else
                        (case parse_value n r2 of
                           None \<Rightarrow> None
                         | Some (v, r3) \<Rightarrow>
                             (case skip_space r3 of
                                [] \<Rightarrow> None
                              | c # r4 \<Rightarrow>
                                  if c = CHR '','' then parse_members n r4 (put_member k v acc)
                                  else if c = CHR ''}''
                                  then Some (JObj (put_member k v acc), r4)
                                  else None)))))"

definition JSON_parse :: "string \<Rightarrow> error + json" where
  "JSON_parse s =
     (case parse_value (Suc (length s)) s of
        None \<Rightarrow> Inl (SyntaxError ''Unexpected token'')
      | Some (v, r) \<Rightarrow>
          if skip_space r = [] then Inr v else Inl (SyntaxError ''Unexpected token''))"

section \<open>llmService: the router and the intent synthesizer\<close>

text \<open>
  A string is a list of code units below 256. \<open>String.prototype.trim\<close> removes white
  space and line terminators from both ends; below 256 these are the six control
  characters from tab to carriage return, the space and the no-break space.
\<close>

definition is_js_space :: "char \<Rightarrow> bool" where
  "is_js_space c = ((of_char c :: nat) \<in> {9, 10, 11, 12, 13, 32, 160})"

definition js_trim :: "string \<Rightarrow> string" where
  "js_trim s = rev (dropWhile is_js_space (rev (dropWhile is_js_space s)))"

definition nl :: string where
  "nl = [CHR 0x0A]"

text \<open>
  \<open>text.match(/\{[\s\S]*\}/)\<close>: the match starts at the first \<open>{\<close> of the text and,
  the star being greedy, ends at the last \<open>}\<close> after it; there is none when no \<open>}\<close>
  follows the first \<open>{\<close>.
\<close>

definition greedy_braces :: "string \<Rightarrow> string option" where
  "greedy_braces text =
     (case dropWhile (\<lambda>c. c \<noteq> CHR ''{'') text of
        [] \<Rightarrow> None
      | open_brace # after \<Rightarrow>
          (case rev (dropWhile (\<lambda>c. c \<noteq> CHR ''}'') (rev after)) of
             [] \<Rightarrow> None
           | c # cs \<Rightarrow> Some (open_brace # c # cs)))"

text \<open>
  The completion provider: the request carries the model, the two messages, the token
  budget and the temperature; the answer is \<open>completion.choices[0]?.message?.content\<close>, a
  string or nothing, unless constructing the client or the call throws.
\<close>

record CompletionRequest =
  req_model :: string
  req_system :: string
  req_user :: string
  req_max_tokens :: nat
  req_temperature :: rat

type_synonym completion = "CompletionRequest \<Rightarrow> error + string option"

text \<open>\<open>content?.trim() || ""\<close>.\<close>

definition completion_text :: "string option \<Rightarrow> string" where
  "completion_text content = (case content of None \<Rightarrow> [] | Some c \<Rightarrow> js_trim c)"

text \<open>The end of \<open>llmRouter\<close>, from the completion's content to the returned decision:
  \<^verbatim>\<open>
  let json;
  try { json = JSON.parse(text); }
  catch (e) {
    const match = text.match(/\{[\s\S]*\}/);
    if (match) { json = JSON.parse(match[0]); }
    else { throw new Error("LLM did not return valid JSON"); }
  }
  return json;\<close>
\<close>

definition llmRouter_decode :: "(string \<Rightarrow> error + json) \<Rightarrow> string option \<Rightarrow> error + json" where
  "llmRouter_decode parse content =
     (let text = completion_text content in
      case parse text of
        Inr json \<Rightarrow> Inr json
      | Inl e \<Rightarrow>
          (case greedy_braces text of
             Some m \<Rightarrow> parse m
           | None \<Rightarrow> Inl (Error ''LLM did not return valid JSON'')))"

definition router_prompt :: "string \<Rightarrow> string \<Rightarrow> json option \<Rightarrow> int \<Rightarrow> string" where
  "router_prompt basePrompt message history credits =
     basePrompt @ nl @ nl
     @ ''Conversation history (for context):'' @ nl
     @ JSON_stringify (case history of None \<Rightarrow> JArr [] | Some h \<Rightarrow> if js_truthy h then h else JArr [])
     @ nl @ nl
     @ ''User message:'' @ nl
     @ [CHR 0x22] @ message @ [CHR 0x22] @ nl @ nl
     @ ''User credits: '' @ show_int credits @ nl @ nl
     @ ''Response:''"

definition router_system :: string where
  "router_system = ''You are an assistant that decides how to process messages in a chat with a Nevermined agent. Only respond with a valid JSON with the action and a reason if applicable.''"

text \<open>\<open>basePrompt\<close> is what \<open>loadPrompt("llm-router.prompt")\<close> returned; \<open>loadPrompt\<close> never
  throws.\<close>

definition llmRouter ::
  "(string \<Rightarrow> error + json) \<Rightarrow> completion \<Rightarrow> string \<Rightarrow> string \<Rightarrow> json option \<Rightarrow> int \<Rightarrow>
   effect list \<Rightarrow> (error + json) \<times> effect list" where
  "llmRouter parse create basePrompt message history credits lg =
     (let prompt = router_prompt basePrompt message history credits;
          lg1 = lg @ [ChatCompletion router_system prompt] in
      case create \<lparr>req_model = ''gpt-4.1'', req_system = router_system, req_user = prompt,
                   req_max_tokens = 512, req_temperature = 2 / 10\<rparr> of
        Inl err \<Rightarrow> (Inl err, lg1)
      | Inr content \<Rightarrow> (llmRouter_decode parse content, lg1))"

subsection \<open>The intent synthesizer\<close>

record ConversationMessage =
  msg_role :: string
  msg_content :: string

datatype intent = NaturalLanguageInstruction string | ToolInvocation json

text \<open>\<open>typeof v === "object"\<close> for a value or \<open>undefined\<close>: objects, arrays and \<open>null\<close>.\<close>

fun typeof_object :: "json option \<Rightarrow> bool" where
  "typeof_object (Some JNull) = True"
| "typeof_object (Some (JArr xs)) = True"
| "typeof_object (Some (JObj kvs)) = True"
| "typeof_object v = False"

fun typeof_string :: "json option \<Rightarrow> bool" where
  "typeof_string (Some (JStr s)) = True"
| "typeof_string v = False"

text \<open>\<open>obj && typeof obj.tool === "string" && typeof obj.args === "object"\<close>.\<close>

definition has_tool_shape :: "json \<Rightarrow> bool" where
  "has_tool_shape obj =
     (js_truthy obj \<and> typeof_string (get_prop obj ''tool'') \<and> typeof_object (get_prop obj ''args''))"

definition catalog_given :: "json option \<Rightarrow> bool" where
  "catalog_given toolsCatalog = (case toolsCatalog of None \<Rightarrow> False | Some c \<Rightarrow> js_truthy c)"

definition history_lines :: "ConversationMessage list \<Rightarrow> string" where
  "history_lines history =
     join nl (map (\<lambda>msg. (if msg_role msg = ''user'' then ''User'' else ''Assistant'')
                          @ '': '' @ msg_content msg) history)"

definition tools_section :: "json option \<Rightarrow> string" where
  \<open>tools_section toolsCatalog =
     (case toolsCatalog of
        None \<Rightarrow> nl @ nl @ ''Task: Synthesize ONE clear English sentence that captures the user's intent suitable as an instruction for the agent above. Do not include system text, disclaimers, or extra commentary. Return only the sentence.''
      | Some c \<Rightarrow>
          if js_truthy c
          then nl @ nl @ ''Available MCP tools (with input schemas):'' @ nl
               @ JSON_stringify c @ nl @ nl
               @ ''Task: Choose the most appropriate tool and produce ONLY a JSON object with this shape:'' @ nl
               @ ''{ "tool": "<tool_name>", "args": { /* keys and values matching the tool's inputSchema */ } }'' @ nl
               @ ''- Ensure args strictly follow the inputSchema types and required fields.'' @ nl
               @ ''- Do NOT add fields that are not in the schema.'' @ nl
               @ ''- If multiple tools apply, pick the most specific.'' @ nl
               @ ''- Do not include any explanations, only the JSON.''
          else nl @ nl @ ''Task: Synthesize ONE clear English sentence that captures the user's intent suitable as an instruction for the agent above. Do not include system text, disclaimers, or extra commentary. Return only the sentence.'')\<close>

definition synthesizer_system :: "json option \<Rightarrow> string" where
  \<open>synthesizer_system toolsCatalog =
     (if catalog_given toolsCatalog
      then ''You convert conversation intent into a strict JSON tool call that adheres to the provided MCP tools' input schemas. Return ONLY valid JSON with tool and args.''
      else ''You synthesize the user's intent from a conversation into a single, clear English sentence suitable as an instruction for the given agent context. Be concise and specific.'')\<close>

definition synthesizer_prompt :: "ConversationMessage list \<Rightarrow> string \<Rightarrow> json option \<Rightarrow> string" where
  "synthesizer_prompt history agentContext toolsCatalog =
     ''Agent Context (domain and behavior):'' @ nl @ agentContext @ nl @ nl
     @ ''Conversation history:'' @ nl @ history_lines history
     @ tools_section toolsCatalog @ nl @ nl @ ''Response:''"

text \<open>The end of \<open>llmIntentSynthesizer\<close>:
  \<^verbatim>\<open>
  if (toolsCatalog) {
    try {
      const obj = JSON.parse(text);
      if (obj && typeof obj.tool === "string" && typeof obj.args === "object") {
        return obj as { tool: string; args: Record<string, any> };
      }
    } catch {}
  }
  return text;\<close>
\<close>

definition synthesizer_decode ::
  "(string \<Rightarrow> error + json) \<Rightarrow> json option \<Rightarrow> string option \<Rightarrow> intent" where
  "synthesizer_decode parse toolsCatalog content =
     (let text = completion_text content in
      if catalog_given toolsCatalog
      then (case parse text of
              Inl e \<Rightarrow> NaturalLanguageInstruction text
            | Inr obj \<Rightarrow>
                if has_tool_shape obj then ToolInvocation obj
                else NaturalLanguageInstruction text)
      else NaturalLanguageInstruction text)"

definition llmIntentSynthesizer ::
  "(string \<Rightarrow> error + json) \<Rightarrow> completion \<Rightarrow> ConversationMessage list \<Rightarrow> string \<Rightarrow>
   json option \<Rightarrow> effect list \<Rightarrow> (error + intent) \<times> effect list" where
  "llmIntentSynthesizer parse create history agentContext toolsCatalog lg =
     (let prompt = synthesizer_prompt history agentContext toolsCatalog;
          lg1 = lg @ [ChatCompletion (synthesizer_system toolsCatalog) prompt] in
      case create \<lparr>req_model = ''gpt-4.1'', req_system = synthesizer_system toolsCatalog,
                   req_user = prompt, req_max_tokens = 64, req_temperature = 3 / 10\<rparr> of
        Inl err \<Rightarrow> (Inl err, lg1)
      | Inr content \<Rightarrow> (Inr (synthesizer_decode parse toolsCatalog content), lg1))"

section \<open>routes: the router endpoint\<close>

definition getUserCredits ::
  "env \<Rightarrow> (string \<Rightarrow> string \<Rightarrow> Payments) \<Rightarrow> string \<Rightarrow> effect list \<Rightarrow>
   (error + int) \<times> effect list" where
  "getUserCredits e getInstance nvmApiKey lg =
     (let environment = env_or e ''NVM_ENVIRONMENT'' ''testing'' in
      case env_get e ''PLAN_ID'' of
        None \<Rightarrow> (Inl (Error ''Missing Nevermined API key or plan DID''), lg)
      | Some pid \<Rightarrow>
          if nvmApiKey = [] then (Inl (Error ''Missing Nevermined API key or plan DID''), lg)
          else
            (case initializePayments getInstance nvmApiKey environment of
               Inl err \<Rightarrow> (Inl err, lg)
             | Inr p \<Rightarrow>
                 (case plans_getPlanBalance p pid of
                    Inl err \<Rightarrow> (Inl err, lg @ [GetPlanBalance pid])
                  | Inr balance \<Rightarrow> (Inr balance, lg @ [GetPlanBalance pid]))))"

record Response =
  http_status :: nat
  http_body :: json

text \<open>
  The key that \<open>POST /api/llm-router\<close> takes from the \<open>Authorization\<close> header: the header
  must start with \<open>"Bearer "\<close>; that prefix is removed (\<open>replace\<close> removes the first
  occurrence, which is the prefix) and the rest trimmed; an empty rest is no key.
\<close>

definition bearer_key :: "string option \<Rightarrow> string option" where
  "bearer_key authorization =
     (case authorization of
        None \<Rightarrow> None
      | Some authHeader \<Rightarrow>
          if authHeader \<noteq> [] \<and> take 7 authHeader = ''Bearer ''
          then (let nvmApiKey = js_trim (drop 7 authHeader)
                in if nvmApiKey \<noteq> [] then Some nvmApiKey else None)
          else None)"

text \<open>\<open>return res.json(result)\<close>, or the \<open>catch\<close> around the whole body.\<close>

definition router_response :: "(error + json) \<times> effect list \<Rightarrow> Response \<times> effect list" where
  "router_response r =
     (case r of
        (Inr result, lg) \<Rightarrow> (\<lparr>http_status = 200, http_body = result\<rparr>, lg)
      | (Inl err, lg) \<Rightarrow>
          (\<lparr>http_status = 500,
            http_body = JObj [(''error'', JStr ''Failed to call LLM or get credits'')]\<rparr>, lg))"

definition post_llm_router ::
  "(string \<Rightarrow> error + json) \<Rightarrow> completion \<Rightarrow> string \<Rightarrow> env \<Rightarrow> (string \<Rightarrow> string \<Rightarrow> Payments) \<Rightarrow>
   string option \<Rightarrow> json option \<Rightarrow> json option \<Rightarrow> effect list \<Rightarrow> Response \<times> effect list" where
  "post_llm_router parse create basePrompt e getInstance authorization message history lg =
     (case message of
        Some (JStr m) \<Rightarrow>
          (case bearer_key authorization of
             None \<Rightarrow> router_response (llmRouter parse create basePrompt m history 0 lg)
           | Some nvmApiKey \<Rightarrow>
               (case getUserCredits e getInstance nvmApiKey lg of
                  (Inl err, lg1) \<Rightarrow>
                    router_response (llmRouter parse create basePrompt m history 0 lg1)
                | (Inr credits, lg1) \<Rightarrow>
                    router_response (llmRouter parse create basePrompt m history credits lg1)))
      | _ \<Rightarrow>
          (\<lparr>http_status = 400, http_body = JObj [(''error'', JStr ''Missing message'')]\<rparr>, lg))"

text \<open>A completion provider that always answers the same content, and one that is down.\<close>

definition answering :: "string \<Rightarrow> completion" where
  "answering c = (\<lambda>req. Inr (Some c))"

definition provider_down :: completion where
  "provider_down = (\<lambda>req. Inl (Error ''Connection error.''))"

definition ledger_down :: "string \<Rightarrow> string \<Rightarrow> Payments" where
  "ledger_down key environment =
     example_payments\<lparr>plans_getPlanBalance := (\<lambda>pid. Inl (Error ''Unable to get balance''))\<rparr>"

section \<open>Verification\<close>

subsection \<open>The descriptor is fetched once\<close>

lemma loadDDO_cached:
  "ddo h = Some d \<Longrightarrow> loadDDO h lg = (Inr (Some d), h, lg)"
  by (simp add: loadDDO_def)

lemma with_ddo_cached:
  "ddo h = Some d \<Longrightarrow> with_ddo f h lg = (Inr (f (Some d)), h, lg)"
  by (simp add: with_ddo_def loadDDO_cached)

lemma invoke_cached:
  "ddo h = Some d \<Longrightarrow> invoke c h lg = (Inr (answer_from (planId h) (Some d) c), h, lg)"
  by (cases c)
     (simp_all add: lift_result_def loadDDO_cached with_ddo_cached getTokenAddress_def
        getPlanPrice_def getPlanCredits_def getAgentWallet_def getTokenId_def
        get1155ContractAddress_def)

lemma invoke_all_cached:
  "ddo h = Some d \<Longrightarrow>
   invoke_all cs h lg = (map (\<lambda>c. Inr (answer_from (planId h) (Some d) c)) cs, h, lg)"
  by (induction cs) (simp_all add: invoke_cached)

lemma loadDDO_Some:
  assumes "loadDDO h lg = (Inr (Some d), h', lg')"
  shows "ddo h' = Some d \<and> planId h' = planId h \<and> payments h' = payments h
         \<and> (lg' = lg \<or> lg' = lg @ [GetPlan (planId h)])"
  using assms
  by (auto simp: loadDDO_def split: option.splits sum.splits)

text \<open>
  Claim C9. Once \<open>loadDDO\<close> has returned a plan record \<open>d\<close> on a helper instance (at
  the cost of at most one \<open>getPlan\<close>), every later sequence of calls to \<open>loadDDO\<close>,
  \<open>getTokenAddress\<close>, \<open>getPlanPrice\<close>, \<open>getPlanCredits\<close>, \<open>getAgentWallet\<close>,
  \<open>getTokenId\<close> and \<open>get1155ContractAddress\<close> leaves the log as it was (no further
  remote fetch) and the cached record unchanged, each call answers from that same
  record \<open>d\<close>, and \<open>getTokenId\<close> answers the plan id.
\<close>

theorem PlanDDOHelper_fetches_once:
  assumes "loadDDO h lg = (Inr (Some d), h', lg')"
  shows "(lg' = lg \<or> lg' = lg @ [GetPlan (planId h)])
       \<and> invoke_all cs h' lg' =
           (map (\<lambda>c. Inr (answer_from (planId h) (Some d) c)) cs, h', lg')
       \<and> ddo h' = Some d
       \<and> answer_from (planId h) (Some d) GetTokenId = IdValue (planId h)"
proof -
  from loadDDO_Some [OF assms]
  have c: "ddo h' = Some d" and p: "planId h' = planId h"
    and l: "lg' = lg \<or> lg' = lg @ [GetPlan (planId h)]"
    by simp_all
  from invoke_all_cached [OF c, of cs lg'] p
  have "invoke_all cs h' lg' =
          (map (\<lambda>c. Inr (answer_from (planId h) (Some d) c)) cs, h', lg')"
    by simp
  with c l show ?thesis by simp
qed

theorem PlanDDOHelper_fetches_once_witness:
  "loadDDO (new_PlanDDOHelper example_payments ''plan-1'') [] =
     (Inr (Some example_ddo),
      (new_PlanDDOHelper example_payments ''plan-1'')\<lparr>ddo := Some example_ddo\<rparr>,
      [GetPlan ''plan-1''])
   \<and> invoke_all [GetPlanPrice, GetTokenId, LoadDDO, Get1155ContractAddress]
       ((new_PlanDDOHelper example_payments ''plan-1'')\<lparr>ddo := Some example_ddo\<rparr>)
       [GetPlan ''plan-1''] =
     ([Inr (TextValue (planPrice_of (Some example_ddo))), Inr (IdValue ''plan-1''),
       Inr (DDOValue (Some example_ddo)), Inr (TextValue (Some ''0xNFT''))],
      (new_PlanDDOHelper example_payments ''plan-1'')\<lparr>ddo := Some example_ddo\<rparr>,
      [GetPlan ''plan-1''])"
proof -
  have l: "loadDDO (new_PlanDDOHelper example_payments ''plan-1'') [] =
     (Inr (Some example_ddo),
      (new_PlanDDOHelper example_payments ''plan-1'')\<lparr>ddo := Some example_ddo\<rparr>,
      [GetPlan ''plan-1''])"
    by (simp add: loadDDO_def new_PlanDDOHelper_def example_payments_def)
  have n: "nftAddress_of (Some example_ddo) = Some ''0xNFT''"
    by (simp add: nftAddress_of_def ddo_credits_def example_ddo_def)
  from PlanDDOHelper_fetches_once [OF l,
      of "[GetPlanPrice, GetTokenId, LoadDDO, Get1155ContractAddress]"] l n
  show ?thesis by (simp add: new_PlanDDOHelper_def)
qed

subsection \<open>Polling for the burn event\<close>

lemma polls_append: "polls (xs @ ys) = polls xs + polls ys"
  by (simp add: polls_def)

lemma polls_poll: "polls [FindBurnEvent c w t b] = 1"
  by (simp add: polls_def)

lemma polls_sleep: "polls [Sleep n] = 0"
  by (simp add: polls_def)

lemma burn_poll_found:
  "burn_poll bc c w t fb (Some ev) a lg = (Inr (Some ev), lg)"
  by (simp add: burn_poll.simps)

lemma burn_poll_exhausted:
  "burn_poll bc c w t fb None 10 lg = (Inr None, lg)"
  by (simp add: burn_poll.simps)

lemma burn_poll_miss:
  assumes "a < 10" and "findBurnEvent bc lg c w t fb = Inr None"
  shows "burn_poll bc c w t fb None a lg =
         burn_poll bc c w t fb None (Suc a)
           (lg @ [FindBurnEvent c w t fb] @ (if Suc a < 10 then [Sleep 5000] else []))"
  using assms by (subst burn_poll.simps) simp

lemma burn_poll_hit:
  assumes "a < 10" and "findBurnEvent bc lg c w t fb = Inr (Some ev)"
  shows "burn_poll bc c w t fb None a lg = (Inr (Some ev), lg @ [FindBurnEvent c w t fb])"
  using assms by (subst burn_poll.simps) (simp add: burn_poll_found)

lemma burn_poll_match:
  assumes "a + j < 10"
    and "\<forall>lg'. polls lg \<le> polls lg' \<and> polls lg' < polls lg + j \<longrightarrow> findBurnEvent bc lg' c w t fb = Inr None"
    and "\<forall>lg'. polls lg' = polls lg + j \<longrightarrow> findBurnEvent bc lg' c w t fb = Inr (Some ev)"
  shows "burn_poll bc c w t fb None a lg =
         (Inr (Some ev), lg @ alternating (Suc j) (FindBurnEvent c w t fb) (Sleep 5000))"
  using assms
proof (induction j arbitrary: a lg)
  case 0
  then show ?case by (simp add: burn_poll_hit)
next
  case (Suc j)
  let ?lg = "lg @ [FindBurnEvent c w t fb] @ [Sleep 5000]"
  have p: "polls ?lg = Suc (polls lg)"
    by (simp add: polls_def)
  have m: "findBurnEvent bc lg c w t fb = Inr None"
    using Suc.prems(2) by simp
  have s: "burn_poll bc c w t fb None a lg = burn_poll bc c w t fb None (Suc a) ?lg"
    using Suc.prems(1) m by (simp add: burn_poll_miss)
  have "burn_poll bc c w t fb None (Suc a) ?lg =
        (Inr (Some ev), ?lg @ alternating (Suc j) (FindBurnEvent c w t fb) (Sleep 5000))"
  proof (rule Suc.IH)
    show "Suc a + j < 10" using Suc.prems(1) by simp
    show "\<forall>lg'. polls ?lg \<le> polls lg' \<and> polls lg' < polls ?lg + j \<longrightarrow>
            findBurnEvent bc lg' c w t fb = Inr None"
      using Suc.prems(2) p by simp
    show "\<forall>lg'. polls lg' = polls ?lg + j \<longrightarrow> findBurnEvent bc lg' c w t fb = Inr (Some ev)"
      using Suc.prems(3) p by simp
  qed
  with s show ?case by simp
qed

lemma burn_poll_none:
  assumes "a + n = 10"
    and "\<forall>lg'. polls lg \<le> polls lg' \<and> polls lg' < polls lg + n \<longrightarrow> findBurnEvent bc lg' c w t fb = Inr None"
  shows "burn_poll bc c w t fb None a lg =
         (Inr None, lg @ alternating n (FindBurnEvent c w t fb) (Sleep 5000))"
  using assms
proof (induction n arbitrary: a lg)
  case 0
  then show ?case by (simp add: burn_poll_exhausted)
next
  case (Suc n)
  let ?lg = "lg @ [FindBurnEvent c w t fb] @ (if Suc a < 10 then [Sleep 5000] else [])"
  have p: "polls ?lg = Suc (polls lg)"
    by (simp add: polls_def)
  have m: "findBurnEvent bc lg c w t fb = Inr None"
    using Suc.prems(2) by simp
  have s: "burn_poll bc c w t fb None a lg = burn_poll bc c w t fb None (Suc a) ?lg"
    using Suc.prems(1) m by (simp add: burn_poll_miss)
  have "burn_poll bc c w t fb None (Suc a) ?lg =
        (Inr None, ?lg @ alternating n (FindBurnEvent c w t fb) (Sleep 5000))"
  proof (rule Suc.IH)
    show "Suc a + n = 10" using Suc.prems(1) by simp
    show "\<forall>lg'. polls ?lg \<le> polls lg' \<and> polls lg' < polls ?lg + n \<longrightarrow>
            findBurnEvent bc lg' c w t fb = Inr None"
      using Suc.prems(2) p by simp
  qed
  moreover have "?lg @ alternating n (FindBurnEvent c w t fb) (Sleep 5000) =
                 lg @ alternating (Suc n) (FindBurnEvent c w t fb) (Sleep 5000)"
    using Suc.prems(1) by (cases n) auto
  ultimately show ?case using s by simp
qed


lemma burn_poll_bound:
  "a + n = 10 \<Longrightarrow> polls (snd (burn_poll bc c w t fb None a lg)) \<le> polls lg + n"
proof (induction n arbitrary: a lg)
  case 0
  then show ?case by (simp add: burn_poll_exhausted)
next
  case (Suc n)
  then have a: "a < 10" by simp
  show ?case
  proof (cases "findBurnEvent bc lg c w t fb")
    case (Inl err)
    then show ?thesis using a by (subst burn_poll.simps) (simp add: polls_def)
  next
    case (Inr r)
    show ?thesis
    proof (cases r)
      case None
      let ?lg = "lg @ [FindBurnEvent c w t fb] @ (if Suc a < 10 then [Sleep 5000] else [])"
      have p: "polls ?lg = Suc (polls lg)" by (simp add: polls_def)
      have "polls (snd (burn_poll bc c w t fb None (Suc a) ?lg)) \<le> polls ?lg + n"
        using Suc.prems by (intro Suc.IH) simp
      then show ?thesis using a Inr None p by (simp add: burn_poll_miss)
    next
      case (Some ev)
      then show ?thesis using a Inr by (simp add: burn_poll_hit polls_def)
    qed
  qed
qed

lemma loadDDO_polls: "loadDDO h lg = (r, h', lg') \<Longrightarrow> polls lg' = polls lg"
  by (auto simp: loadDDO_def polls_def split: option.splits sum.splits)

lemma with_ddo_polls: "with_ddo f h lg = (r, h', lg') \<Longrightarrow> polls lg' = polls lg"
  by (auto simp: with_ddo_def split: prod.splits sum.splits dest: loadDDO_polls)

lemma burn_setup_polls: "burn_setup e gi key lg = (r, lg1) \<Longrightarrow> polls lg1 = polls lg"
  by (auto simp: burn_setup_def Let_def getTokenId_def get1155ContractAddress_def
        split: option.splits sum.splits prod.splits if_splits
        dest!: loadDDO_polls with_ddo_polls)


lemma alternating_polls: "polls (alternating k (FindBurnEvent c w t fb) (Sleep d)) = k"
  by (induction k "FindBurnEvent c w t fb" "Sleep d" rule: alternating.induct)
     (simp_all add: polls_def)

lemma alternating_sleeps:
  "filter (\<lambda>x. \<not> is_poll x) (alternating k (FindBurnEvent c w t fb) (Sleep d)) =
   replicate (k - 1) (Sleep d)"
  by (induction k "FindBurnEvent c w t fb" "Sleep d" rule: alternating.induct) simp_all

text \<open>
  Claim C2. \<open>getBurnTransactionInfo\<close> polls the Event Locator at most 10 times, whatever
  the Locator answers. Once the setup has succeeded: if the Locator's \<open>k\<close>-th answer
  (\<open>1 \<le> k \<le> 10\<close>) is the first match, the function returns that match and the log shows
  exactly \<open>k\<close> polls with a 5000 ms delay between each two consecutive ones, \<open>k - 1\<close>
  delays in all, and nothing after the matching poll; if the first ten answers are all
  "no match", it makes exactly 10 polls (9 delays) and returns \<open>null\<close> as a value, not as
  an error.
\<close>

theorem getBurnTransactionInfo_polls:
  assumes "burn_setup e getInstance nvmApiKey lg = (Inr (pid, c, t, w), lg1)"
  shows
    "polls (snd (getBurnTransactionInfo e getInstance bc fromBlock nvmApiKey lg)) \<le> polls lg + 10
   \<and> (1 \<le> k \<and> k \<le> 10
        \<and> (\<forall>lg'. polls lg1 \<le> polls lg' \<and> polls lg' + 1 < polls lg1 + k
               \<longrightarrow> findBurnEvent bc lg' c w t fromBlock = Inr None)
        \<and> (\<forall>lg'. polls lg' + 1 = polls lg1 + k
               \<longrightarrow> findBurnEvent bc lg' c w t fromBlock = Inr (Some ev))
      \<longrightarrow> getBurnTransactionInfo e getInstance bc fromBlock nvmApiKey lg =
            (Inr (Some \<lparr>burn_txHash = txHash ev, burn_credits = eventValue ev, burn_planId = pid\<rparr>),
             lg1 @ alternating k (FindBurnEvent c w t fromBlock) (Sleep 5000)))
   \<and> ((\<forall>lg'. polls lg1 \<le> polls lg' \<and> polls lg' < polls lg1 + 10
               \<longrightarrow> findBurnEvent bc lg' c w t fromBlock = Inr None)
      \<longrightarrow> getBurnTransactionInfo e getInstance bc fromBlock nvmApiKey lg =
            (Inr None, lg1 @ alternating 10 (FindBurnEvent c w t fromBlock) (Sleep 5000)))"
proof (intro conjI impI)
  have p1: "polls lg1 = polls lg"
    using assms by (rule burn_setup_polls)
  have "polls (snd (burn_poll bc c w t fromBlock None 0 lg1)) \<le> polls lg1 + 10"
    by (rule burn_poll_bound) simp
  then show "polls (snd (getBurnTransactionInfo e getInstance bc fromBlock nvmApiKey lg))
             \<le> polls lg + 10"
    using assms p1
    by (auto simp: getBurnTransactionInfo_def split: prod.splits sum.splits option.splits)
next
  assume h: "1 \<le> k \<and> k \<le> 10
        \<and> (\<forall>lg'. polls lg1 \<le> polls lg' \<and> polls lg' + 1 < polls lg1 + k
               \<longrightarrow> findBurnEvent bc lg' c w t fromBlock = Inr None)
        \<and> (\<forall>lg'. polls lg' + 1 = polls lg1 + k
               \<longrightarrow> findBurnEvent bc lg' c w t fromBlock = Inr (Some ev))"
  then obtain j where j: "k = Suc j" by (cases k) auto
  have "burn_poll bc c w t fromBlock None 0 lg1 =
        (Inr (Some ev), lg1 @ alternating (Suc j) (FindBurnEvent c w t fromBlock) (Sleep 5000))"
  proof (rule burn_poll_match)
    show "0 + j < 10" using h j by simp
    show "\<forall>lg'. polls lg1 \<le> polls lg' \<and> polls lg' < polls lg1 + j \<longrightarrow>
            findBurnEvent bc lg' c w t fromBlock = Inr None"
      using h j by simp
    show "\<forall>lg'. polls lg' = polls lg1 + j \<longrightarrow>
            findBurnEvent bc lg' c w t fromBlock = Inr (Some ev)"
      using h j by simp
  qed
  then show "getBurnTransactionInfo e getInstance bc fromBlock nvmApiKey lg =
            (Inr (Some \<lparr>burn_txHash = txHash ev, burn_credits = eventValue ev, burn_planId = pid\<rparr>),
             lg1 @ alternating k (FindBurnEvent c w t fromBlock) (Sleep 5000))"
    using assms j by (simp add: getBurnTransactionInfo_def)
next
  assume h: "\<forall>lg'. polls lg1 \<le> polls lg' \<and> polls lg' < polls lg1 + 10
               \<longrightarrow> findBurnEvent bc lg' c w t fromBlock = Inr None"
  have "burn_poll bc c w t fromBlock None 0 lg1 =
        (Inr None, lg1 @ alternating 10 (FindBurnEvent c w t fromBlock) (Sleep 5000))"
    by (rule burn_poll_none) (use h in simp_all)
  then show "getBurnTransactionInfo e getInstance bc fromBlock nvmApiKey lg =
            (Inr None, lg1 @ alternating 10 (FindBurnEvent c w t fromBlock) (Sleep 5000))"
    using assms by (simp add: getBurnTransactionInfo_def)
qed

lemma example_setup:
  "burn_setup example_env (\<lambda>key environment. example_payments) ''key'' [] =
     (Inr (''plan-1'', ''0xNFT'', ''plan-1'', ''0xWallet''), [GetPlan ''plan-1''])"
  by (simp add: burn_setup_def example_env_def env_or_def env_get_def initializePayments_def
      example_payments_def loadDDO_def new_PlanDDOHelper_def get1155ContractAddress_def
      with_ddo_def nftAddress_of_def ddo_credits_def example_ddo_def getTokenId_def)

theorem getBurnTransactionInfo_polls_witness:
  "getBurnTransactionInfo example_env (\<lambda>key environment. example_payments) (example_chain 3)
     100 ''key'' [] =
     (Inr (Some \<lparr>burn_txHash = ''0xburn'', burn_credits = ''1'', burn_planId = ''plan-1''\<rparr>),
      [GetPlan ''plan-1'',
       FindBurnEvent ''0xNFT'' ''0xWallet'' ''plan-1'' 100, Sleep 5000,
       FindBurnEvent ''0xNFT'' ''0xWallet'' ''plan-1'' 100, Sleep 5000,
       FindBurnEvent ''0xNFT'' ''0xWallet'' ''plan-1'' 100])
   \<and> getBurnTransactionInfo example_env (\<lambda>key environment. example_payments) (example_chain 0)
     100 ''key'' [] =
     (Inr None,
      GetPlan ''plan-1'' #
      alternating 10 (FindBurnEvent ''0xNFT'' ''0xWallet'' ''plan-1'' 100) (Sleep 5000))"
proof -
  have p: "polls [GetPlan ''plan-1''] = 0" by (simp add: polls_def)
  have a: "getBurnTransactionInfo example_env (\<lambda>key environment. example_payments)
             (example_chain 3) 100 ''key'' [] =
           (Inr (Some \<lparr>burn_txHash = txHash example_burn, burn_credits = eventValue example_burn,
                       burn_planId = ''plan-1''\<rparr>),
            [GetPlan ''plan-1''] @
            alternating 3 (FindBurnEvent ''0xNFT'' ''0xWallet'' ''plan-1'' 100) (Sleep 5000))"
    using getBurnTransactionInfo_polls [OF example_setup, of "example_chain 3" 100 3 example_burn] p
    by (simp add: example_chain_def)
  have b: "getBurnTransactionInfo example_env (\<lambda>key environment. example_payments)
             (example_chain 0) 100 ''key'' [] =
           (Inr None,
            [GetPlan ''plan-1''] @
            alternating 10 (FindBurnEvent ''0xNFT'' ''0xWallet'' ''plan-1'' 100) (Sleep 5000))"
    using getBurnTransactionInfo_polls [OF example_setup, of "example_chain 0" 100 1 example_burn] p
    by (simp add: example_chain_def)
  from a b show ?thesis
    by (simp add: example_burn_def numeral_3_eq_3)
qed

subsection \<open>No purchase without the balance\<close>



subsection \<open>The text of a price\<close>


































subsection \<open>The tool gateway\<close>

lemma example_token:
  "getAgentAccessToken example_env (\<lambda>key environment. example_payments) ''key'' [] =
     (Inr \<lparr>accessToken = ''token-1'', agentId = ''did:agent''\<rparr>,
      [GetAgentAccessToken ''plan-1'' ''did:agent''])"
  by (simp add: getAgentAccessToken_def example_env_def env_or_def env_get_def
      initializePayments_def example_payments_def)

lemma example_endpoint:
  "env_or example_env ''MCP_ENDPOINT'' ''http://localhost:3001/mcp'' = ''http://localhost:3001/mcp''"
  by (simp add: env_or_def example_env_def)

lemma extract_text_first:
  assumes "get_prop result ''content'' = Some (JArr content)"
    and "find is_text_item content = Some textItem"
    and "get_prop textItem ''text'' = Some (JStr s)"
  shows "extract_text result = s"
  using assms by (simp add: extract_text_def)

lemma outputText_first_text:
  assumes "get_prop result ''content'' = Some (JArr content)"
    and "find is_text_item content = Some textItem"
    and "get_prop textItem ''text'' = Some (JStr s)"
    and "s \<noteq> []"
  shows "outputText_of result = s"
  using assms by (simp add: outputText_of_def extract_text_def)

lemma outputText_no_text_block:
  assumes "get_prop result ''content'' = Some (JArr content)"
    and "find is_text_item content = None"
  shows "outputText_of result = JSON_stringify result"
  using assms by (cases result) (simp_all add: outputText_of_def extract_text_def)

lemma outputText_empty_text:
  assumes "get_prop result ''content'' = Some (JArr content)"
    and "find is_text_item content = Some textItem"
    and "get_prop textItem ''text'' = Some (JStr [])"
  shows "outputText_of result = JSON_stringify result"
  using assms by (cases result) (simp_all add: outputText_of_def extract_text_def)

text \<open>
  Claim C5, at the input where the code leaves it: a response whose first (and only)
  text block carries the empty string. The claim gives \<open>outputText = ""\<close>, the text
  field of that block; \<open>callMcpTool\<close> returns the JSON serialization of the whole
  response, because the empty text is taken for "no text found".
\<close>

theorem callMcpTool_empty_text_block:
  \<open>callMcpTool http_url example_env (\<lambda>key environment. example_payments)
     (answering_server (text_result '''')) ''weather.today'' (JObj []) ''key'' [] =
   (Inr \<lparr>tool_output = ''{"content":[{"type":"text","text":""}]}'',
         tool_content = Some (JArr [JObj [(''type'', JStr ''text''), (''text'', JStr '''')]])\<rparr>,
    [GetAgentAccessToken ''plan-1'' ''did:agent'',
     McpConnect ''http://localhost:3001/mcp'' ''token-1'',
     McpCallTool ''weather.today'' (JObj []),
     McpClose])\<close>
  by (simp add: callMcpTool_def example_token example_endpoint finally_close_def http_url_def
      answering_server_def text_result_def outputText_of_def extract_text_def is_text_item_def
      quote_def escape_char_def)

text \<open>
  Claim C8 fails for \<open>createTask\<close> and \<open>listMcpTools\<close>: with a tool server that cannot
  be reached, \<open>createTask\<close> returns the ordinary result \<open>{output: "Error creating task"}\<close>,
  the very result it returns when the agent is reached and a tool answers that text, and
  \<open>listMcpTools\<close> returns the empty list; neither surfaces an error.
\<close>

theorem gateway_conflates_counterexample:
  "mcp_connect unreachable_server ''http://localhost:3001/mcp'' ''token-1'' =
     Inl (Error ''fetch failed'')
   \<and> fst (createTask http_url example_env (\<lambda>key environment. example_payments)
          unreachable_server (TextInput ''Lima'') ''key'' []) =
     Inr \<lparr>task_output = ''Error creating task''\<rparr>
   \<and> fst (createTask http_url example_env (\<lambda>key environment. example_payments)
          (answering_server (text_result ''Error creating task''))
          (TextInput ''Lima'') ''key'' []) =
     Inr \<lparr>task_output = ''Error creating task''\<rparr>
   \<and> fst (listMcpTools http_url example_env (\<lambda>key environment. example_payments)
          unreachable_server ''key'' []) =
     Inr (JArr [])"
  by (simp add: createTask_def listMcpTools_def example_token example_endpoint finally_close_def
      unreachable_server_def answering_server_def text_result_def decide_tool_def http_url_def
      outputText_of_def extract_text_def is_text_item_def split: prod.splits)

text \<open>
  Claim C8 as the code has it. Take a run in which the access token is obtained, and let
  \<open>ep\<close> be the endpoint, \<open>MCP_ENDPOINT\<close> or its default.

  When \<open>ep\<close> does not parse as a URL, \<open>callMcpTool\<close>, \<open>createTask\<close> and \<open>listMcpTools\<close>
  all throw the \<open>TypeError\<close> of \<open>new URL\<close>, before any session is opened.

  When \<open>ep\<close> parses and the connection fails, or the connection is made and the call
  itself fails, \<open>callMcpTool\<close> closes the client and leaves its caller with that error
  (an exception, never a tool result), while \<open>createTask\<close> closes the client and returns
  the ordinary result \<open>{output: "Error creating task"}\<close> and \<open>listMcpTools\<close> closes the
  client and returns the empty list: for these two the caller receives a value, not an
  error.
\<close>

theorem gateway_failures:
  assumes "getAgentAccessToken e getInstance nvmApiKey lg = (Inr tok, lg1)"
    and "ep = env_or e ''MCP_ENDPOINT'' ''http://localhost:3001/mcp''"
    and "t = accessToken tok"
  shows
    "(\<not> parses ep \<longrightarrow>
        callMcpTool parses e getInstance mcp toolName args nvmApiKey lg =
          (Inl (TypeError ''Invalid URL''), lg1)
      \<and> createTask parses e getInstance mcp input nvmApiKey lg =
          (Inl (TypeError ''Invalid URL''), lg1)
      \<and> listMcpTools parses e getInstance mcp nvmApiKey lg =
          (Inl (TypeError ''Invalid URL''), lg1))
   \<and> (parses ep \<and> mcp_connect mcp ep t = Inl err \<longrightarrow>
        callMcpTool parses e getInstance mcp toolName args nvmApiKey lg =
          (Inl err, lg1 @ [McpConnect ep t, McpClose])
      \<and> createTask parses e getInstance mcp input nvmApiKey lg =
          (Inr \<lparr>task_output = ''Error creating task''\<rparr>, lg1 @ [McpConnect ep t, McpClose])
      \<and> listMcpTools parses e getInstance mcp nvmApiKey lg =
          (Inr (JArr []), lg1 @ [McpConnect ep t, McpClose]))
   \<and> (parses ep \<and> mcp_connect mcp ep t = Inr () \<longrightarrow>
        (mcp_callTool mcp toolName args = Inl err \<longrightarrow>
           callMcpTool parses e getInstance mcp toolName args nvmApiKey lg =
             (Inl err, lg1 @ [McpConnect ep t, McpCallTool toolName args, McpClose]))
      \<and> (mcp_callTool mcp (fst (decide_tool e input)) (snd (decide_tool e input)) = Inl err \<longrightarrow>
           createTask parses e getInstance mcp input nvmApiKey lg =
             (Inr \<lparr>task_output = ''Error creating task''\<rparr>,
              lg1 @ [McpConnect ep t,
                     McpCallTool (fst (decide_tool e input)) (snd (decide_tool e input)),
                     McpClose]))
      \<and> (mcp_listTools mcp = Inl err \<longrightarrow>
           listMcpTools parses e getInstance mcp nvmApiKey lg =
             (Inr (JArr []), lg1 @ [McpConnect ep t, McpListTools, McpClose])))"
  using assms
  by (auto simp: callMcpTool_def createTask_def listMcpTools_def finally_close_def Let_def
      split: sum.splits prod.splits)

theorem gateway_failures_witness:
  "callMcpTool http_url example_env (\<lambda>key environment. example_payments) unreachable_server
      ''weather.today'' (JObj []) ''key'' [] =
     (Inl (Error ''fetch failed''),
      [GetAgentAccessToken ''plan-1'' ''did:agent'',
       McpConnect ''http://localhost:3001/mcp'' ''token-1'', McpClose])
   \<and> createTask http_url example_env (\<lambda>key environment. example_payments) unreachable_server
      (TextInput ''Lima'') ''key'' [] =
     (Inr \<lparr>task_output = ''Error creating task''\<rparr>,
      [GetAgentAccessToken ''plan-1'' ''did:agent'',
       McpConnect ''http://localhost:3001/mcp'' ''token-1'', McpClose])
   \<and> listMcpTools http_url example_env (\<lambda>key environment. example_payments) unreachable_server
      ''key'' [] =
     (Inr (JArr []),
      [GetAgentAccessToken ''plan-1'' ''did:agent'',
       McpConnect ''http://localhost:3001/mcp'' ''token-1'', McpClose])
   \<and> createTask http_url (example_env(''MCP_ENDPOINT'' \<mapsto> ''not a url''))
      (\<lambda>key environment. example_payments) unreachable_server (TextInput ''Lima'') ''key'' [] =
     (Inl (TypeError ''Invalid URL''), [GetAgentAccessToken ''plan-1'' ''did:agent''])"
proof -
  have u: "http_url ''http://localhost:3001/mcp''" and n: "\<not> http_url ''not a url''"
    by (simp_all add: http_url_def)
  have c: "mcp_connect unreachable_server ''http://localhost:3001/mcp'' ''token-1'' =
           Inl (Error ''fetch failed'')"
    by (simp add: unreachable_server_def)
  have t: "getAgentAccessToken (example_env(''MCP_ENDPOINT'' \<mapsto> ''not a url''))
             (\<lambda>key environment. example_payments) ''key'' [] =
           (Inr \<lparr>accessToken = ''token-1'', agentId = ''did:agent''\<rparr>,
            [GetAgentAccessToken ''plan-1'' ''did:agent''])"
    by (simp add: getAgentAccessToken_def example_env_def env_or_def env_get_def
        initializePayments_def example_payments_def)
  have e: "env_or (example_env(''MCP_ENDPOINT'' \<mapsto> ''not a url'')) ''MCP_ENDPOINT''
             ''http://localhost:3001/mcp'' = ''not a url''"
    by (simp add: env_or_def)
  from gateway_failures [OF example_token example_endpoint [symmetric] refl,
      where parses = http_url and mcp = unreachable_server and err = "Error ''fetch failed''"
        and toolName = "''weather.today''" and args = "JObj []" and input = "TextInput ''Lima''"]
    u c
  have 1: "callMcpTool http_url example_env (\<lambda>key environment. example_payments)
      unreachable_server ''weather.today'' (JObj []) ''key'' [] =
     (Inl (Error ''fetch failed''),
      [GetAgentAccessToken ''plan-1'' ''did:agent'',
       McpConnect ''http://localhost:3001/mcp'' ''token-1'', McpClose])
   \<and> createTask http_url example_env (\<lambda>key environment. example_payments) unreachable_server
      (TextInput ''Lima'') ''key'' [] =
     (Inr \<lparr>task_output = ''Error creating task''\<rparr>,
      [GetAgentAccessToken ''plan-1'' ''did:agent'',
       McpConnect ''http://localhost:3001/mcp'' ''token-1'', McpClose])
   \<and> listMcpTools http_url example_env (\<lambda>key environment. example_payments) unreachable_server
      ''key'' [] =
     (Inr (JArr []),
      [GetAgentAccessToken ''plan-1'' ''did:agent'',
       McpConnect ''http://localhost:3001/mcp'' ''token-1'', McpClose])"
    by simp
  from gateway_failures [OF t e [symmetric] refl,
      where parses = http_url and mcp = unreachable_server and input = "TextInput ''Lima''"] n
  have 2: "createTask http_url (example_env(''MCP_ENDPOINT'' \<mapsto> ''not a url''))
      (\<lambda>key environment. example_payments) unreachable_server (TextInput ''Lima'') ''key'' [] =
     (Inl (TypeError ''Invalid URL''), [GetAgentAccessToken ''plan-1'' ''did:agent''])"
    by simp
  from 1 2 show ?thesis by simp
qed

text \<open>
  Claim C10. Given a plain string, \<open>createTask\<close> (once it holds a token and a session,
  the endpoint being a URL) calls exactly one tool: the one named by \<open>MCP_TOOL\<close> when
  that variable is set and not empty, otherwise \<open>weather.today.raw\<close> when \<open>RAW\<close> is set
  and not empty, otherwise \<open>weather.today\<close>; its arguments are \<open>{city: input}\<close> with the
  whole string for a non-empty input and \<open>{}\<close> for the empty string.
\<close>

theorem createTask_text_input:
  assumes "getAgentAccessToken e getInstance nvmApiKey lg = (Inr tok, lg1)"
    and "parses (env_or e ''MCP_ENDPOINT'' ''http://localhost:3001/mcp'')"
    and "mcp_connect mcp (env_or e ''MCP_ENDPOINT'' ''http://localhost:3001/mcp'')
           (accessToken tok) = Inr ()"
  shows "snd (createTask parses e getInstance mcp (TextInput s) nvmApiKey lg) =
         lg1 @
         [McpConnect (env_or e ''MCP_ENDPOINT'' ''http://localhost:3001/mcp'') (accessToken tok),
          McpCallTool
            (case env_get e ''MCP_TOOL'' of
               Some t \<Rightarrow> t
             | None \<Rightarrow> (case env_get e ''RAW'' of
                          Some r \<Rightarrow> ''weather.today.raw''
                        | None \<Rightarrow> ''weather.today''))
            (if s = [] then JObj [] else JObj [(''city'', JStr s)]),
          McpClose]"
  using assms
  by (auto simp: createTask_def decide_tool_def finally_close_def Let_def
      split: sum.splits option.splits)

theorem createTask_text_input_witness:
  "snd (createTask http_url example_env (\<lambda>key environment. example_payments)
          (answering_server (text_result ''Sunny, 24C''))
          (TextInput ''What is the weather in Lima tomorrow?'') ''key'' []) =
     [GetAgentAccessToken ''plan-1'' ''did:agent'',
      McpConnect ''http://localhost:3001/mcp'' ''token-1'',
      McpCallTool ''weather.today'' (JObj [(''city'', JStr ''What is the weather in Lima tomorrow?'')]),
      McpClose]
   \<and> snd (createTask http_url (example_env(''RAW'' \<mapsto> ''1''))
          (\<lambda>key environment. example_payments)
          (answering_server (text_result ''Sunny, 24C'')) (TextInput []) ''key'' []) =
     [GetAgentAccessToken ''plan-1'' ''did:agent'',
      McpConnect ''http://localhost:3001/mcp'' ''token-1'',
      McpCallTool ''weather.today.raw'' (JObj []),
      McpClose]"
proof -
  have c: "\<And>ep. mcp_connect (answering_server (text_result ''Sunny, 24C'')) ep ''token-1'' = Inr ()"
    by (simp add: answering_server_def)
  have u: "http_url ''http://localhost:3001/mcp''"
    by (simp add: http_url_def)
  have r: "env_or (example_env(''RAW'' \<mapsto> ''1'')) ''MCP_ENDPOINT'' ''http://localhost:3001/mcp'' =
           ''http://localhost:3001/mcp''"
    by (simp add: env_or_def example_env_def)
  have t: "getAgentAccessToken (example_env(''RAW'' \<mapsto> ''1''))
             (\<lambda>key environment. example_payments) ''key'' [] =
           (Inr \<lparr>accessToken = ''token-1'', agentId = ''did:agent''\<rparr>,
            [GetAgentAccessToken ''plan-1'' ''did:agent''])"
    by (simp add: getAgentAccessToken_def example_env_def env_or_def env_get_def
        initializePayments_def example_payments_def)
  have 1: "snd (createTask http_url example_env (\<lambda>key environment. example_payments)
          (answering_server (text_result ''Sunny, 24C''))
          (TextInput ''What is the weather in Lima tomorrow?'') ''key'' []) =
     [GetAgentAccessToken ''plan-1'' ''did:agent'',
      McpConnect ''http://localhost:3001/mcp'' ''token-1'',
      McpCallTool ''weather.today'' (JObj [(''city'', JStr ''What is the weather in Lima tomorrow?'')]),
      McpClose]"
    using createTask_text_input [OF example_token, where parses = http_url
        and mcp = "answering_server (text_result ''Sunny, 24C'')"
        and s = "''What is the weather in Lima tomorrow?''"]
    by (simp add: c u example_endpoint) (simp add: env_get_def example_env_def)
  have 2: "snd (createTask http_url (example_env(''RAW'' \<mapsto> ''1''))
          (\<lambda>key environment. example_payments)
          (answering_server (text_result ''Sunny, 24C'')) (TextInput []) ''key'' []) =
     [GetAgentAccessToken ''plan-1'' ''did:agent'',
      McpConnect ''http://localhost:3001/mcp'' ''token-1'',
      McpCallTool ''weather.today.raw'' (JObj []),
      McpClose]"
    using createTask_text_input [OF t, where parses = http_url
        and mcp = "answering_server (text_result ''Sunny, 24C'')" and s = "[]"]
    by (simp add: c u r) (simp add: env_get_def example_env_def)
  from 1 2 show ?thesis by simp
qed

subsection \<open>The router's reading of a completion\<close>

lemma dropWhile_until:
  "x \<notin> set pre \<Longrightarrow> dropWhile (\<lambda>c. c \<noteq> x) (pre @ x # rest) = x # rest"
  by (induction pre) auto

lemma greedy_braces_embedded:
  assumes "CHR ''{'' \<notin> set pre" and "CHR ''}'' \<notin> set post"
  shows "greedy_braces (pre @ CHR ''{'' # mid @ CHR ''}'' # post) =
         Some (CHR ''{'' # mid @ [CHR ''}''])"
proof -
  have 1: "dropWhile (\<lambda>c. c \<noteq> CHR ''{'') (pre @ CHR ''{'' # mid @ CHR ''}'' # post) =
           CHR ''{'' # mid @ CHR ''}'' # post"
    using assms(1) by (rule dropWhile_until)
  have "CHR ''}'' \<notin> set (rev post)" using assms(2) by simp
  then have "dropWhile (\<lambda>c. c \<noteq> CHR ''}'') (rev post @ CHR ''}'' # rev mid) = CHR ''}'' # rev mid"
    by (rule dropWhile_until)
  then have 2: "rev (dropWhile (\<lambda>c. c \<noteq> CHR ''}'') (rev (mid @ CHR ''}'' # post))) = mid @ [CHR ''}'']"
    by simp
  show ?thesis
    unfolding greedy_braces_def 1 list.case 2
    by (cases mid) simp_all
qed



lemma first_brace:
  assumes "s = pre @ x # rest"
  shows "\<exists>p r. s = p @ x # r \<and> x \<notin> set p \<and> set rest \<subseteq> set r"
  using assms
proof (induction pre arbitrary: s)
  case Nil
  then show ?case by (intro exI [of _ "[]"] exI [of _ rest]) simp
next
  case (Cons a pre)
  show ?case
  proof (cases "a = x")
    case True
    with Cons.prems show ?thesis
      by (intro exI [of _ "[]"] exI [of _ "pre @ x # rest"]) auto
  next
    case False
    from Cons.IH [of "pre @ x # rest"] obtain p r
      where "pre @ x # rest = p @ x # r" "x \<notin> set p" "set rest \<subseteq> set r" by auto
    with False Cons.prems show ?thesis
      by (intro exI [of _ "a # p"] exI [of _ r]) auto
  qed
qed

lemma greedy_braces_found:
  assumes "s = pre @ CHR ''{'' # mid @ CHR ''}'' # post"
  shows "greedy_braces s \<noteq> None"
proof -
  from first_brace [OF assms] obtain p r where
    p: "s = p @ CHR ''{'' # r" "CHR ''{'' \<notin> set p" "set (mid @ CHR ''}'' # post) \<subseteq> set r"
    by auto
  then have "CHR ''}'' \<in> set r" by auto
  then obtain m q where q: "r = m @ CHR ''}'' # q" "CHR ''}'' \<notin> set q"
    using split_list_last [of "CHR ''}''" r] by auto
  from greedy_braces_embedded [OF p(2) q(2), of m] p(1) q(1) show ?thesis by simp
qed

lemma greedy_braces_missing:
  assumes "greedy_braces s \<noteq> None"
  shows "\<exists>pre mid post. s = pre @ CHR ''{'' # mid @ CHR ''}'' # post"
proof -
  let ?d = "dropWhile (\<lambda>c. c \<noteq> CHR ''{'') s"
  from assms obtain o_b after where d: "?d = o_b # after"
    by (cases ?d) (auto simp: greedy_braces_def)
  have "\<not> (hd ?d \<noteq> CHR ''{'')"
    using d hd_dropWhile [of "\<lambda>c. c \<noteq> CHR ''{''" s] by fastforce
  with d have ob: "o_b = CHR ''{''" by simp
  have "takeWhile (\<lambda>c. c \<noteq> CHR ''{'') s @ ?d = s" by (rule takeWhile_dropWhile_id)
  with d ob have t: "s = takeWhile (\<lambda>c. c \<noteq> CHR ''{'') s @ CHR ''{'' # after" by simp
  from assms d have "rev (dropWhile (\<lambda>c. c \<noteq> CHR ''}'') (rev after)) \<noteq> []"
    unfolding greedy_braces_def
    by (cases "rev (dropWhile (\<lambda>c. c \<noteq> CHR ''}'') (rev after))") simp_all
  then have "dropWhile (\<lambda>c. c \<noteq> CHR ''}'') (rev after) \<noteq> []" by simp
  then have "CHR ''}'' \<in> set after"
    by (auto simp: dropWhile_eq_Nil_conv)
  then obtain m q where "after = m @ CHR ''}'' # q"
    using split_list [of "CHR ''}''" after] by auto
  with t show ?thesis by blast
qed

lemma greedy_braces_None_iff:
  "greedy_braces s = None \<longleftrightarrow>
   (\<forall>pre mid post. s \<noteq> pre @ CHR ''{'' # mid @ CHR ''}'' # post)"
  using greedy_braces_found [of s] greedy_braces_missing [of s] by blast

lemma llmRouter_fst:
  assumes "create \<lparr>req_model = ''gpt-4.1'', req_system = router_system,
                    req_user = router_prompt basePrompt message history credits,
                    req_max_tokens = 512, req_temperature = 2 / 10\<rparr> = Inr content"
  shows "fst (llmRouter parse create basePrompt message history credits lg) =
         llmRouter_decode parse content"
  using assms by (simp add: llmRouter_def)

lemma answering_fst:
  "fst (llmRouter parse (answering c) basePrompt message history credits lg) =
   llmRouter_decode parse (Some c)"
  by (simp add: llmRouter_def answering_def)

text \<open>
  Claim C4 fails where the surrounding prose has a brace of its own: the decision
  \<open>{"action":"no_credit"}\<close> is embedded in the response, it is the first balanced
  \<open>{...}\<close> substring and parses to \<open>action = no_credit\<close>, but the Router takes the text
  from the first \<open>{\<close> to the last \<open>}\<close> and fails on it. And a response that is valid
  JSON but no object, such as \<open>42\<close>, is returned as the decision.
\<close>

theorem llmRouter_first_balanced_counterexample:
  \<open>JSON_parse ''{"action":"no_credit"}'' = Inr (JObj [(''action'', JStr ''no_credit'')])
   \<and> fst (llmRouter JSON_parse
          (answering (''Decision: '' @ ''{"action":"no_credit"}'' @ '' Reason: the balance is {0}.''))
          ''Route the message.'' ''Tell me the weather in Lima'' None 0 []) =
       Inl (SyntaxError ''Unexpected token'')
   \<and> fst (llmRouter JSON_parse (answering ''42'')
          ''Route the message.'' ''Tell me the weather in Lima'' None 0 []) =
       Inr (JNum 42)\<close>
  by (simp add: answering_fst llmRouter_decode_def completion_text_def js_trim_def
      is_js_space_def greedy_braces_def JSON_parse_def skip_space_def is_json_space_def
      unescape_def parse_number_def is_digit_def read_nat_def digit_val_def)

text \<open>
  Claim C4 as the code has it. The Router first parses the whole trimmed response and
  returns whatever value that gives. When that fails, it parses the text from the first
  \<open>{\<close> to the last \<open>}\<close> of the response: so a decision embedded in prose with no \<open>{\<close>
  before it and no \<open>}\<close> after it is the text that gets parsed, and its value is
  returned, or the parser's error if it is not valid JSON. When the response has no
  \<open>{\<close> followed by a \<open>}\<close>, the Router fails with "LLM did not return valid JSON".
\<close>

theorem llmRouter_parsing_policy:
  assumes "create \<lparr>req_model = ''gpt-4.1'', req_system = router_system,
                    req_user = router_prompt basePrompt message history credits,
                    req_max_tokens = 512, req_temperature = 2 / 10\<rparr> = Inr content"
  shows
    "(parse (completion_text content) = Inr j \<longrightarrow>
        fst (llmRouter parse create basePrompt message history credits lg) = Inr j)
   \<and> (parse (completion_text content) = Inl e
        \<and> completion_text content = pre @ CHR ''{'' # mid @ CHR ''}'' # post
        \<and> CHR ''{'' \<notin> set pre \<and> CHR ''}'' \<notin> set post \<longrightarrow>
        fst (llmRouter parse create basePrompt message history credits lg) =
          parse (CHR ''{'' # mid @ [CHR ''}'']))
   \<and> (parse (completion_text content) = Inl e
        \<and> (\<forall>p m q. completion_text content \<noteq> p @ CHR ''{'' # m @ CHR ''}'' # q) \<longrightarrow>
        fst (llmRouter parse create basePrompt message history credits lg) =
          Inl (Error ''LLM did not return valid JSON''))"
proof -
  have f: "fst (llmRouter parse create basePrompt message history credits lg) =
           llmRouter_decode parse content"
    using assms by (simp add: llmRouter_def)
  show ?thesis
  proof (intro conjI impI)
  assume "parse (completion_text content) = Inr j"
  then show "fst (llmRouter parse create basePrompt message history credits lg) = Inr j"
    by (simp add: f llmRouter_decode_def)
next
  assume h: "parse (completion_text content) = Inl e
        \<and> completion_text content = pre @ CHR ''{'' # mid @ CHR ''}'' # post
        \<and> CHR ''{'' \<notin> set pre \<and> CHR ''}'' \<notin> set post"
  then have a: "parse (completion_text content) = Inl e" by (rule conjunct1)
  from h have "greedy_braces (completion_text content) = Some (CHR ''{'' # mid @ [CHR ''}''])"
    by (simp add: greedy_braces_embedded)
  with a show "fst (llmRouter parse create basePrompt message history credits lg) =
          parse (CHR ''{'' # mid @ [CHR ''}''])"
    by (simp add: f llmRouter_decode_def)
next
  assume h: "parse (completion_text content) = Inl e
        \<and> (\<forall>p m q. completion_text content \<noteq> p @ CHR ''{'' # m @ CHR ''}'' # q)"
  then have a: "parse (completion_text content) = Inl e" by (rule conjunct1)
  from h have "greedy_braces (completion_text content) = None"
    by (simp add: greedy_braces_None_iff)
  with a show "fst (llmRouter parse create basePrompt message history credits lg) =
          Inl (Error ''LLM did not return valid JSON'')"
    by (simp add: f llmRouter_decode_def)
  qed
qed

theorem llmRouter_parsing_policy_witness:
  \<open>fst (llmRouter JSON_parse (answering ''Sure! {"action":"no_credit"} thanks'')
          ''Route the message.'' ''Tell me the weather in Lima'' None 0 []) =
     Inr (JObj [(''action'', JStr ''no_credit'')])
   \<and> fst (llmRouter JSON_parse (answering ''  {"action":"forward"} '')
          ''Route the message.'' ''Tell me the weather in Lima'' None 0 []) =
     Inr (JObj [(''action'', JStr ''forward'')])
   \<and> fst (llmRouter JSON_parse (answering ''I cannot decide.'')
          ''Route the message.'' ''Tell me the weather in Lima'' None 0 []) =
     Inl (Error ''LLM did not return valid JSON'')\<close>
proof -
  have t1: \<open>completion_text (Some ''Sure! {"action":"no_credit"} thanks'') =
            ''Sure! '' @ CHR ''{'' # ''"action":"no_credit"'' @ CHR ''}'' # '' thanks''\<close>
    by (simp add: completion_text_def js_trim_def is_js_space_def)
  have p1: \<open>JSON_parse (''Sure! '' @ CHR ''{'' # ''"action":"no_credit"'' @ CHR ''}'' # '' thanks'') =
            Inl (SyntaxError ''Unexpected token'')\<close>
    by (simp add: JSON_parse_def skip_space_def is_json_space_def is_digit_def)
  have q1: \<open>JSON_parse (CHR ''{'' # ''"action":"no_credit"'' @ [CHR ''}'']) =
            Inr (JObj [(''action'', JStr ''no_credit'')])\<close>
    by (simp add: JSON_parse_def skip_space_def is_json_space_def unescape_def)
  have 1: \<open>fst (llmRouter JSON_parse (answering ''Sure! {"action":"no_credit"} thanks'')
          ''Route the message.'' ''Tell me the weather in Lima'' None 0 []) =
     Inr (JObj [(''action'', JStr ''no_credit'')])\<close>
    using llmRouter_parsing_policy [where parse = JSON_parse
        and create = \<open>answering ''Sure! {"action":"no_credit"} thanks''\<close>
        and content = \<open>Some ''Sure! {"action":"no_credit"} thanks''\<close>
        and e = "SyntaxError ''Unexpected token''"
        and pre = "''Sure! ''" and mid = \<open>''"action":"no_credit"''\<close> and post = "'' thanks''"
        and basePrompt = "''Route the message.''" and message = "''Tell me the weather in Lima''"
        and history = None and credits = 0 and lg = "[]"]
    unfolding t1 p1 q1 by (simp add: answering_def)
  have t2: \<open>completion_text (Some ''  {"action":"forward"} '') = ''{"action":"forward"}''\<close>
    by (simp add: completion_text_def js_trim_def is_js_space_def)
  have p2: \<open>JSON_parse ''{"action":"forward"}'' = Inr (JObj [(''action'', JStr ''forward'')])\<close>
    by (simp add: JSON_parse_def skip_space_def is_json_space_def unescape_def)
  have 2: \<open>fst (llmRouter JSON_parse (answering ''  {"action":"forward"} '')
          ''Route the message.'' ''Tell me the weather in Lima'' None 0 []) =
     Inr (JObj [(''action'', JStr ''forward'')])\<close>
    using llmRouter_parsing_policy [where parse = JSON_parse
        and create = \<open>answering ''  {"action":"forward"} ''\<close>
        and content = \<open>Some ''  {"action":"forward"} ''\<close>
        and j = "JObj [(''action'', JStr ''forward'')]"
        and basePrompt = "''Route the message.''" and message = "''Tell me the weather in Lima''"
        and history = None and credits = 0 and lg = "[]"]
    unfolding t2 p2 by (simp add: answering_def)
  have t3: "completion_text (Some ''I cannot decide.'') = ''I cannot decide.''"
    by (simp add: completion_text_def js_trim_def is_js_space_def)
  have p3: "JSON_parse ''I cannot decide.'' = Inl (SyntaxError ''Unexpected token'')"
    by (simp add: JSON_parse_def skip_space_def is_json_space_def is_digit_def)
  have g3: "\<forall>p m q. ''I cannot decide.'' \<noteq> p @ CHR ''{'' # m @ CHR ''}'' # q"
    using greedy_braces_None_iff [of "''I cannot decide.''"]
    by (simp add: greedy_braces_def)
  have 3: "fst (llmRouter JSON_parse (answering ''I cannot decide.'')
          ''Route the message.'' ''Tell me the weather in Lima'' None 0 []) =
     Inl (Error ''LLM did not return valid JSON'')"
    using llmRouter_parsing_policy [where parse = JSON_parse
        and create = "answering ''I cannot decide.''"
        and content = "Some ''I cannot decide.''"
        and e = "SyntaxError ''Unexpected token''"
        and basePrompt = "''Route the message.''" and message = "''Tell me the weather in Lima''"
        and history = None and credits = 0 and lg = "[]"] g3
    unfolding t3 p3 by (simp add: answering_def)
  from 1 2 3 show ?thesis by simp
qed

subsection \<open>The intent synthesizer with a catalog\<close>

text \<open>
  Claim C6 fails on the code: with a tool catalog supplied, a completion that is not JSON
  and one that is JSON without \<open>args\<close> both come back as the raw text, as a value;
  no error is raised.
\<close>

theorem llmIntentSynthesizer_raw_output_counterexample:
  \<open>fst (llmIntentSynthesizer JSON_parse (answering ''I would call weather.today for Lima.'')
          [\<lparr>msg_role = ''user'', msg_content = ''Weather in Lima?''\<rparr>] ''Weather agent''
          (Some (JArr [JObj [(''name'', JStr ''weather.today'')]])) []) =
     Inr (NaturalLanguageInstruction ''I would call weather.today for Lima.'')
   \<and> fst (llmIntentSynthesizer JSON_parse (answering ''{"tool":"weather.today"}'')
          [\<lparr>msg_role = ''user'', msg_content = ''Weather in Lima?''\<rparr>] ''Weather agent''
          (Some (JArr [JObj [(''name'', JStr ''weather.today'')]])) []) =
     Inr (NaturalLanguageInstruction ''{"tool":"weather.today"}'')\<close>
  by (simp add: llmIntentSynthesizer_def answering_def synthesizer_decode_def catalog_given_def
      completion_text_def js_trim_def is_js_space_def has_tool_shape_def
      JSON_parse_def skip_space_def is_json_space_def unescape_def is_digit_def)

text \<open>
  Claim C6 as the code has it. When a tool catalog is supplied and the completion
  provider answers, a completion that fails to parse as JSON, or that parses to a value
  without a string \<open>tool\<close> and an \<open>args\<close> of type object, is returned as the raw trimmed
  text, the same value as without a catalog; the Intent Synthesizer raises no error of
  its own. A completion of the required shape is returned as the parsed object.
\<close>

theorem llmIntentSynthesizer_falls_through:
  assumes "catalog_given toolsCatalog"
    and "create \<lparr>req_model = ''gpt-4.1'', req_system = synthesizer_system toolsCatalog,
                   req_user = synthesizer_prompt history agentContext toolsCatalog,
                   req_max_tokens = 64, req_temperature = 3 / 10\<rparr> = Inr content"
  shows
    "(parse (completion_text content) = Inl e \<longrightarrow>
        fst (llmIntentSynthesizer parse create history agentContext toolsCatalog lg) =
          Inr (NaturalLanguageInstruction (completion_text content)))
   \<and> (parse (completion_text content) = Inr obj \<and> \<not> has_tool_shape obj \<longrightarrow>
        fst (llmIntentSynthesizer parse create history agentContext toolsCatalog lg) =
          Inr (NaturalLanguageInstruction (completion_text content)))
   \<and> (parse (completion_text content) = Inr obj \<and> has_tool_shape obj \<longrightarrow>
        fst (llmIntentSynthesizer parse create history agentContext toolsCatalog lg) =
          Inr (ToolInvocation obj))"
  using assms
  by (simp add: llmIntentSynthesizer_def synthesizer_decode_def)

theorem llmIntentSynthesizer_falls_through_witness:
  \<open>fst (llmIntentSynthesizer JSON_parse (answering ''Call the weather tool.'')
          [\<lparr>msg_role = ''user'', msg_content = ''Weather in Lima?''\<rparr>] ''Weather agent''
          (Some (JArr [JObj [(''name'', JStr ''weather.today'')]])) []) =
     Inr (NaturalLanguageInstruction ''Call the weather tool.'')
   \<and> fst (llmIntentSynthesizer JSON_parse (answering ''{"tool":5,"args":{}}'')
          [\<lparr>msg_role = ''user'', msg_content = ''Weather in Lima?''\<rparr>] ''Weather agent''
          (Some (JArr [JObj [(''name'', JStr ''weather.today'')]])) []) =
     Inr (NaturalLanguageInstruction ''{"tool":5,"args":{}}'')
   \<and> fst (llmIntentSynthesizer JSON_parse
          (answering ''{"tool":"weather.today","args":{"city":"Lima"}}'')
          [\<lparr>msg_role = ''user'', msg_content = ''Weather in Lima?''\<rparr>] ''Weather agent''
          (Some (JArr [JObj [(''name'', JStr ''weather.today'')]])) []) =
     Inr (ToolInvocation
            (JObj [(''tool'', JStr ''weather.today''), (''args'', JObj [(''city'', JStr ''Lima'')])]))\<close>
proof -
  have c: "catalog_given (Some (JArr [JObj [(''name'', JStr ''weather.today'')]]))"
    by (simp add: catalog_given_def)
  have t: "\<And>s. js_trim s = s \<Longrightarrow> completion_text (Some s) = s"
    by (simp add: completion_text_def)
  have t1: "completion_text (Some ''Call the weather tool.'') = ''Call the weather tool.''"
    by (rule t) (simp add: js_trim_def is_js_space_def)
  have t2: \<open>completion_text (Some ''{"tool":5,"args":{}}'') = ''{"tool":5,"args":{}}''\<close>
    by (rule t) (simp add: js_trim_def is_js_space_def)
  have t3: \<open>completion_text (Some ''{"tool":"weather.today","args":{"city":"Lima"}}'') =
            ''{"tool":"weather.today","args":{"city":"Lima"}}''\<close>
    by (rule t) (simp add: js_trim_def is_js_space_def)
  have p1: "JSON_parse ''Call the weather tool.'' = Inl (SyntaxError ''Unexpected token'')"
    by (simp add: JSON_parse_def skip_space_def is_json_space_def is_digit_def)
  have p2: \<open>JSON_parse ''{"tool":5,"args":{}}'' = Inr (JObj [(''tool'', JNum 5), (''args'', JObj [])])\<close>
    by (simp add: JSON_parse_def skip_space_def is_json_space_def unescape_def is_digit_def
        parse_number_def read_nat_def digit_val_def)
  have p3: \<open>JSON_parse ''{"tool":"weather.today","args":{"city":"Lima"}}'' =
            Inr (JObj [(''tool'', JStr ''weather.today''), (''args'', JObj [(''city'', JStr ''Lima'')])])\<close>
    by (simp add: JSON_parse_def skip_space_def is_json_space_def unescape_def)
  have s2: "\<not> has_tool_shape (JObj [(''tool'', JNum 5), (''args'', JObj [])])"
    by (simp add: has_tool_shape_def)
  have s3: "has_tool_shape
              (JObj [(''tool'', JStr ''weather.today''), (''args'', JObj [(''city'', JStr ''Lima'')])])"
    by (simp add: has_tool_shape_def)
  have 1: \<open>fst (llmIntentSynthesizer JSON_parse (answering ''Call the weather tool.'')
          [\<lparr>msg_role = ''user'', msg_content = ''Weather in Lima?''\<rparr>] ''Weather agent''
          (Some (JArr [JObj [(''name'', JStr ''weather.today'')]])) []) =
     Inr (NaturalLanguageInstruction ''Call the weather tool.'')\<close>
    using llmIntentSynthesizer_falls_through [OF c, where parse = JSON_parse
        and create = "answering ''Call the weather tool.''"
        and content = "Some ''Call the weather tool.''"
        and e = "SyntaxError ''Unexpected token''"
        and history = "[\<lparr>msg_role = ''user'', msg_content = ''Weather in Lima?''\<rparr>]"
        and agentContext = "''Weather agent''" and lg = "[]"]
    unfolding t1 p1 by (simp add: answering_def)
  have 2: \<open>fst (llmIntentSynthesizer JSON_parse (answering ''{"tool":5,"args":{}}'')
          [\<lparr>msg_role = ''user'', msg_content = ''Weather in Lima?''\<rparr>] ''Weather agent''
          (Some (JArr [JObj [(''name'', JStr ''weather.today'')]])) []) =
     Inr (NaturalLanguageInstruction ''{"tool":5,"args":{}}'')\<close>
    using llmIntentSynthesizer_falls_through [OF c, where parse = JSON_parse
        and create = \<open>answering ''{"tool":5,"args":{}}''\<close>
        and content = \<open>Some ''{"tool":5,"args":{}}''\<close>
        and obj = "JObj [(''tool'', JNum 5), (''args'', JObj [])]"
        and history = "[\<lparr>msg_role = ''user'', msg_content = ''Weather in Lima?''\<rparr>]"
        and agentContext = "''Weather agent''" and lg = "[]"] s2
    unfolding t2 p2 by (simp add: answering_def)
  have 3: \<open>fst (llmIntentSynthesizer JSON_parse
          (answering ''{"tool":"weather.today","args":{"city":"Lima"}}'')
          [\<lparr>msg_role = ''user'', msg_content = ''Weather in Lima?''\<rparr>] ''Weather agent''
          (Some (JArr [JObj [(''name'', JStr ''weather.today'')]])) []) =
     Inr (ToolInvocation
            (JObj [(''tool'', JStr ''weather.today''), (''args'', JObj [(''city'', JStr ''Lima'')])]))\<close>
    using llmIntentSynthesizer_falls_through [OF c, where parse = JSON_parse
        and create = \<open>answering ''{"tool":"weather.today","args":{"city":"Lima"}}''\<close>
        and content = \<open>Some ''{"tool":"weather.today","args":{"city":"Lima"}}''\<close>
        and obj = "JObj [(''tool'', JStr ''weather.today''), (''args'', JObj [(''city'', JStr ''Lima'')])]"
        and history = "[\<lparr>msg_role = ''user'', msg_content = ''Weather in Lima?''\<rparr>]"
        and agentContext = "''Weather agent''" and lg = "[]"] s3
    unfolding t3 p3 by (simp add: answering_def)
  from 1 2 3 show ?thesis by simp
qed

subsection \<open>The router endpoint and the ledger\<close>

text \<open>
  Claim C7. For every inbound message (a string), when the request carries no usable
  credential, or when the credit lookup for its key throws, \<open>POST /api/llm-router\<close>
  answers with exactly what the Router gives for \<open>credits = 0\<close>: the Router is invoked,
  its completion request carries the prompt built with \<open>User credits: 0\<close>, and the
  ledger's error is not propagated.
\<close>

theorem post_llm_router_credits_default:
  "(bearer_key authorization = None \<longrightarrow>
      post_llm_router parse create basePrompt e getInstance authorization (Some (JStr m)) history lg =
        router_response (llmRouter parse create basePrompt m history 0 lg))
   \<and> (bearer_key authorization = Some nvmApiKey
        \<and> fst (getUserCredits e getInstance nvmApiKey lg) = Inl err \<longrightarrow>
      post_llm_router parse create basePrompt e getInstance authorization (Some (JStr m)) history lg =
        router_response (llmRouter parse create basePrompt m history 0
          (snd (getUserCredits e getInstance nvmApiKey lg))))
   \<and> snd (llmRouter parse create basePrompt m history 0 lg') =
        lg' @ [ChatCompletion router_system (router_prompt basePrompt m history 0)]"
  by (auto simp: post_llm_router_def llmRouter_def Let_def split: prod.splits sum.splits)

theorem post_llm_router_credits_default_witness:
  \<open>post_llm_router JSON_parse (answering ''{"action":"no_credit"}'') ''Route the message.''
     example_env ledger_down (Some ''Bearer key-1'') (Some (JStr ''Weather in Lima?'')) None [] =
   (\<lparr>http_status = 200, http_body = JObj [(''action'', JStr ''no_credit'')]\<rparr>,
    [GetPlanBalance ''plan-1'',
     ChatCompletion router_system (router_prompt ''Route the message.'' ''Weather in Lima?'' None 0)])
   \<and> post_llm_router JSON_parse (answering ''{"action":"no_credit"}'') ''Route the message.''
     example_env ledger_down None (Some (JStr ''Weather in Lima?'')) None [] =
   (\<lparr>http_status = 200, http_body = JObj [(''action'', JStr ''no_credit'')]\<rparr>,
    [ChatCompletion router_system (router_prompt ''Route the message.'' ''Weather in Lima?'' None 0)])\<close>
proof -
  have k: "bearer_key (Some ''Bearer key-1'') = Some ''key-1''"
    by (simp add: bearer_key_def js_trim_def is_js_space_def)
  have g: "getUserCredits example_env ledger_down ''key-1'' [] =
           (Inl (Error ''Unable to get balance''), [GetPlanBalance ''plan-1''])"
    by (simp add: getUserCredits_def example_env_def env_or_def env_get_def
        initializePayments_def ledger_down_def example_payments_def)
  have r: \<open>\<And>lg. router_response (llmRouter JSON_parse (answering ''{"action":"no_credit"}'')
             ''Route the message.'' ''Weather in Lima?'' None 0 lg) =
           (\<lparr>http_status = 200, http_body = JObj [(''action'', JStr ''no_credit'')]\<rparr>,
            lg @ [ChatCompletion router_system
                    (router_prompt ''Route the message.'' ''Weather in Lima?'' None 0)])\<close>
    by (simp add: router_response_def llmRouter_def answering_def llmRouter_decode_def
        completion_text_def js_trim_def is_js_space_def JSON_parse_def skip_space_def
        is_json_space_def unescape_def)
  have 1: \<open>post_llm_router JSON_parse (answering ''{"action":"no_credit"}'') ''Route the message.''
     example_env ledger_down (Some ''Bearer key-1'') (Some (JStr ''Weather in Lima?'')) None [] =
     router_response (llmRouter JSON_parse (answering ''{"action":"no_credit"}'')
       ''Route the message.'' ''Weather in Lima?'' None 0 [GetPlanBalance ''plan-1''])\<close>
    using post_llm_router_credits_default [where authorization = "Some ''Bearer key-1''"
        and nvmApiKey = "''key-1''" and e = example_env and getInstance = ledger_down
        and lg = "[]" and err = "Error ''Unable to get balance''" and parse = JSON_parse
        and create = \<open>answering ''{"action":"no_credit"}''\<close>
        and basePrompt = "''Route the message.''" and m = "''Weather in Lima?''"
        and history = None]
    by (simp add: k g)
  have 2: \<open>post_llm_router JSON_parse (answering ''{"action":"no_credit"}'') ''Route the message.''
     example_env ledger_down None (Some (JStr ''Weather in Lima?'')) None [] =
     router_response (llmRouter JSON_parse (answering ''{"action":"no_credit"}'')
       ''Route the message.'' ''Weather in Lima?'' None 0 [])\<close>
    using post_llm_router_credits_default [where authorization = None
        and e = example_env and getInstance = ledger_down
        and lg = "[]" and parse = JSON_parse
        and create = \<open>answering ''{"action":"no_credit"}''\<close>
        and basePrompt = "''Route the message.''" and m = "''Weather in Lima?''"
        and history = None]
    by (simp add: bearer_key_def)
  from 1 2 show ?thesis by (simp add: r)
qed

subsection \<open>Purchases stay behind the balance check\<close>

text \<open>
  In every run of \<open>orderPlanCredits\<close>, whatever the configuration and the descriptor:
  on a chain where no balance check answers yes, the log gains no call of the purchase
  primitive.
\<close>

lemma loadDDO_orders: "loadDDO h lg = (r, h', lg') \<Longrightarrow> filter is_order lg' = filter is_order lg"
  by (auto simp: loadDDO_def split: option.splits sum.splits)

lemma with_ddo_orders:
  "with_ddo f h lg = (r, h', lg') \<Longrightarrow> filter is_order lg' = filter is_order lg"
  by (auto simp: with_ddo_def split: prod.splits sum.splits dest: loadDDO_orders)

lemma orderPlanCredits_orders_behind_check:
  assumes "\<forall>token wallet p. hasSufficientERC20Balance bc token wallet p \<noteq> Inr True"
  shows "filter is_order (snd (orderPlanCredits e getInstance bc pid nvmApiKey lg)) =
         filter is_order lg"
  using assms
  by (auto simp: orderPlanCredits_def getPlanPrice_def getTokenAddress_def Let_def
      split: option.splits sum.splits prod.splits
      dest!: loadDDO_orders with_ddo_orders)

end
